theory Spec2Isabelle
  imports Complex_Main
begin

section \<open>Shared types\<close>

text \<open>
  JavaScript numbers are modelled as rationals where the code computes with prices,
  quantities and delays (rounding of doubles, NaN and Infinity are left out), and as
  integers where the code counts (versions, attempts, failure counts) or reads the clock
  (milliseconds since the epoch).
\<close>

type_synonym Date = int

text \<open>An \<^verbatim>\<open>Error\<close> object: its \<^verbatim>\<open>name\<close> and its \<^verbatim>\<open>message\<close>.\<close>

datatype JsError = JsError (errName: string) (errMessage: string)

abbreviation Error :: "string \<Rightarrow> JsError" where
  "Error msg \<equiv> JsError ''Error'' msg"

abbreviation ValidationError :: "string \<Rightarrow> JsError" where
  "ValidationError msg \<equiv> JsError ''ValidationError'' msg"

abbreviation ConflictError :: "string \<Rightarrow> JsError" where
  "ConflictError msg \<equiv> JsError ''ConflictError'' msg"

abbreviation NotFoundError :: "string \<Rightarrow> JsError" where
  "NotFoundError msg \<equiv> JsError ''NotFoundError'' msg"

datatype OrderStatus = PENDING | CONFIRMED | PROCESSING | SHIPPED | DELIVERED | CANCELLED

text \<open>The string value of each member of the \<^verbatim>\<open>OrderStatus\<close> enum.\<close>

fun status_str :: "OrderStatus \<Rightarrow> string" where
  "status_str PENDING = ''pending''"
| "status_str CONFIRMED = ''confirmed''"
| "status_str PROCESSING = ''processing''"
| "status_str SHIPPED = ''shipped''"
| "status_str DELIVERED = ''delivered''"
| "status_str CANCELLED = ''cancelled''"

record OrderItem =
  productId :: string
  quantity :: rat
  price :: rat
  name :: string

record Address =
  street :: string
  city :: string
  state :: string
  zipCode :: string
  country :: string

section \<open>Order events\<close>

text \<open>
  The payload of an event. The TypeScript interfaces tie the \<^verbatim>\<open>type\<close> string of an
  event to the shape of its \<^verbatim>\<open>data\<close>, so the constructor stands for both;
  \<open>OtherData t\<close> is an event of a type \<open>t\<close> the order aggregate has no case for.
\<close>

datatype EventData =
    OrderCreatedData string string "OrderItem list" rat Address string
  | OrderStatusUpdatedData string OrderStatus OrderStatus "string option"
  | OrderPaymentProcessedData string string "string option" "string option"
  | OrderShippedData string string string Date "Date option"
  | OrderCancelledData string string "string option" "rat option"
  | OtherData string

fun event_type :: "EventData \<Rightarrow> string" where
  "event_type (OrderCreatedData _ _ _ _ _ _) = ''OrderCreated''"
| "event_type (OrderStatusUpdatedData _ _ _ _) = ''OrderStatusUpdated''"
| "event_type (OrderPaymentProcessedData _ _ _ _) = ''OrderPaymentProcessed''"
| "event_type (OrderShippedData _ _ _ _ _) = ''OrderShipped''"
| "event_type (OrderCancelledData _ _ _ _) = ''OrderCancelled''"
| "event_type (OtherData t) = t"

record BaseEvent =
  id' :: string
  aggregateId :: string
  aggregateType :: string
  version :: int
  timestamp :: Date
  data :: EventData

text \<open>
  \<^verbatim>\<open>createEvent\<close> draws the event id from the clock and the random generator and
  the timestamp from the clock; a \<open>Stamp\<close> is the pair it draws.
\<close>

record Stamp =
  stampId :: string
  stampTime :: Date

definition createEvent :: "string \<Rightarrow> string \<Rightarrow> EventData \<Rightarrow> int \<Rightarrow> Stamp \<Rightarrow> BaseEvent" where
  "createEvent aggId aggType d v st =
     \<lparr>id' = stampId st, aggregateId = aggId, aggregateType = aggType,
      version = v, timestamp = stampTime st, data = d\<rparr>"

section \<open>The order aggregate\<close>

record OrderAggregate =
  id' :: string
  userId :: string
  items :: "OrderItem list"
  totalAmount :: rat
  status :: OrderStatus
  shippingAddress :: Address
  paymentMethod :: string
  paymentStatus :: string
  version :: int
  uncommittedEvents :: "BaseEvent list"

text \<open>
  The constructor. \<open>idopt\<close> is the optional argument, \<open>uuid\<close> what \<^verbatim>\<open>uuidv4()\<close> returns;
  an absent or empty id is falsy and replaced by the uuid. The address starts as the
  empty object, read here as the address with empty fields.
\<close>

definition emptyAddress :: Address where
  "emptyAddress = \<lparr>street = [], city = [], state = [], zipCode = [], country = []\<rparr>"

definition new_OrderAggregate :: "string option \<Rightarrow> string \<Rightarrow> OrderAggregate" where
  "new_OrderAggregate idopt uuid =
     \<lparr>id' = (case idopt of None \<Rightarrow> uuid | Some i \<Rightarrow> if i = [] then uuid else i),
      userId = [], items = [], totalAmount = 0, status = PENDING,
      shippingAddress = emptyAddress, paymentMethod = [], paymentStatus = ''pending'',
      version = 0, uncommittedEvents = []\<rparr>"

definition markEventsAsCommitted :: "OrderAggregate \<Rightarrow> OrderAggregate" where
  "markEventsAsCommitted a = a\<lparr>uncommittedEvents := []\<rparr>"

text \<open>
  A command runs on the mutable aggregate and may throw: its result is the error thrown,
  if any, and the aggregate as the command leaves it.
\<close>

type_synonym 'a outcome = "JsError option \<times> 'a"

definition applyEvent :: "OrderAggregate \<Rightarrow> BaseEvent \<Rightarrow> OrderAggregate outcome" where
  "applyEvent a e =
     (case data e of
        OrderCreatedData oid uid its tot addr pm \<Rightarrow>
          (None, a\<lparr>userId := uid, items := its, totalAmount := tot,
                    shippingAddress := addr, paymentMethod := pm, status := PENDING,
                    OrderAggregate.version := BaseEvent.version e,
                    uncommittedEvents := uncommittedEvents a @ [e]\<rparr>)
      | OrderStatusUpdatedData oid oldStatus newStatus updatedBy \<Rightarrow>
          (None, a\<lparr>status := newStatus,
                    OrderAggregate.version := BaseEvent.version e,
                    uncommittedEvents := uncommittedEvents a @ [e]\<rparr>)
      | OrderPaymentProcessedData oid ps txn gw \<Rightarrow>
          (None, a\<lparr>paymentStatus := ps,
                    OrderAggregate.version := BaseEvent.version e,
                    uncommittedEvents := uncommittedEvents a @ [e]\<rparr>)
      | OrderShippedData oid tracking carrier shippedAt eta \<Rightarrow>
          (None, a\<lparr>OrderAggregate.version := BaseEvent.version e,
                    uncommittedEvents := uncommittedEvents a @ [e]\<rparr>)
      | OrderCancelledData oid reason cancelledBy refund \<Rightarrow>
          (None, a\<lparr>OrderAggregate.version := BaseEvent.version e,
                    uncommittedEvents := uncommittedEvents a @ [e]\<rparr>)
      | OtherData t \<Rightarrow> (Some (Error (''Unknown event type: '' @ t)), a))"

fun validTransitions :: "OrderStatus \<Rightarrow> OrderStatus list" where
  "validTransitions PENDING = [CONFIRMED, CANCELLED]"
| "validTransitions CONFIRMED = [PROCESSING, CANCELLED]"
| "validTransitions PROCESSING = [SHIPPED, CANCELLED]"
| "validTransitions SHIPPED = [DELIVERED]"
| "validTransitions DELIVERED = []"
| "validTransitions CANCELLED = []"

definition isValidStatusTransition :: "OrderStatus \<Rightarrow> OrderStatus \<Rightarrow> bool" where
  "isValidStatusTransition currentStatus newStatus =
     (newStatus \<in> set (validTransitions currentStatus))"

definition orderTotal :: "OrderItem list \<Rightarrow> rat" where
  "orderTotal its = foldl (\<lambda>acc item. acc + price item * OrderItem.quantity item) 0 its"

definition createOrder ::
  "OrderAggregate \<Rightarrow> string \<Rightarrow> OrderItem list \<Rightarrow> Address \<Rightarrow> string \<Rightarrow> Stamp
     \<Rightarrow> OrderAggregate outcome" where
  "createOrder a uid its addr pm st =
     (if OrderAggregate.version a > 0 then (Some (Error ''Order already exists''), a)
      else if its = [] then (Some (Error ''Order must have at least one item''), a)
      else if orderTotal its \<le> 0
        then (Some (Error ''Order total must be greater than zero''), a)
      else applyEvent a
             (createEvent (OrderAggregate.id' a) ''Order''
                (OrderCreatedData (OrderAggregate.id' a) uid its (orderTotal its) addr pm)
                (OrderAggregate.version a + 1) st))"

definition updateStatus ::
  "OrderAggregate \<Rightarrow> OrderStatus \<Rightarrow> string option \<Rightarrow> Stamp \<Rightarrow> OrderAggregate outcome" where
  "updateStatus a newStatus updatedBy st =
     (if OrderAggregate.version a = 0 then (Some (Error ''Order does not exist''), a)
      else if status a = newStatus then (None, a)
      else if \<not> isValidStatusTransition (status a) newStatus
        then (Some (Error (''Invalid status transition from '' @ status_str (status a)
                            @ '' to '' @ status_str newStatus)), a)
      else applyEvent a
             (createEvent (OrderAggregate.id' a) ''Order''
                (OrderStatusUpdatedData (OrderAggregate.id' a) (status a) newStatus updatedBy)
                (OrderAggregate.version a + 1) st))"

text \<open>
  The commands below apply their own event and then cascade into \<open>updateStatus\<close>, which
  draws a second stamp when it emits an event.
\<close>

definition processPayment ::
  "OrderAggregate \<Rightarrow> string \<Rightarrow> string option \<Rightarrow> string option \<Rightarrow> Stamp \<Rightarrow> Stamp
     \<Rightarrow> OrderAggregate outcome" where
  "processPayment a ps txn gw st st2 =
     (if OrderAggregate.version a = 0 then (Some (Error ''Order does not exist''), a)
      else
        (case applyEvent a
                (createEvent (OrderAggregate.id' a) ''Order''
                   (OrderPaymentProcessedData (OrderAggregate.id' a) ps txn gw)
                   (OrderAggregate.version a + 1) st) of
           (Some err, a1) \<Rightarrow> (Some err, a1)
         | (None, a1) \<Rightarrow>
             if ps = ''completed'' \<and> status a1 = PENDING
             then updateStatus a1 CONFIRMED None st2 else (None, a1)))"

definition shipOrder ::
  "OrderAggregate \<Rightarrow> string \<Rightarrow> string \<Rightarrow> Date option \<Rightarrow> Date \<Rightarrow> Stamp \<Rightarrow> Stamp
     \<Rightarrow> OrderAggregate outcome" where
  "shipOrder a tracking carrier eta shippedAt st st2 =
     (if OrderAggregate.version a = 0 then (Some (Error ''Order does not exist''), a)
      else if status a \<noteq> PROCESSING
        then (Some (Error ''Order must be in processing status to ship''), a)
      else
        (case applyEvent a
                (createEvent (OrderAggregate.id' a) ''Order''
                   (OrderShippedData (OrderAggregate.id' a) tracking carrier shippedAt eta)
                   (OrderAggregate.version a + 1) st) of
           (Some err, a1) \<Rightarrow> (Some err, a1)
         | (None, a1) \<Rightarrow> updateStatus a1 SHIPPED None st2))"

definition cancelOrder ::
  "OrderAggregate \<Rightarrow> string \<Rightarrow> string option \<Rightarrow> rat option \<Rightarrow> Stamp \<Rightarrow> Stamp
     \<Rightarrow> OrderAggregate outcome" where
  "cancelOrder a reason cancelledBy refundAmount st st2 =
     (if OrderAggregate.version a = 0 then (Some (Error ''Order does not exist''), a)
      else if status a = DELIVERED \<or> status a = CANCELLED
        then (Some (Error (''Cannot cancel order with status '' @ status_str (status a))), a)
      else
        (case applyEvent a
                (createEvent (OrderAggregate.id' a) ''Order''
                   (OrderCancelledData (OrderAggregate.id' a) reason cancelledBy refundAmount)
                   (OrderAggregate.version a + 1) st) of
           (Some err, a1) \<Rightarrow> (Some err, a1)
         | (None, a1) \<Rightarrow> updateStatus a1 CANCELLED None st2))"

text \<open>
  \<^verbatim>\<open>OrderService.cancelOrder\<close>, on the aggregate the repository has loaded: the
  refund is the order total when the order is confirmed, and absent otherwise. Saving
  and publishing are left to the repository and the bus.
\<close>

definition OrderService_cancelOrder ::
  "OrderAggregate \<Rightarrow> string \<Rightarrow> string option \<Rightarrow> Stamp \<Rightarrow> Stamp \<Rightarrow> OrderAggregate outcome" where
  "OrderService_cancelOrder a reason cancelledBy st st2 =
     cancelOrder a reason cancelledBy
       (if status a = CONFIRMED then Some (totalAmount a) else None) st st2"

text \<open>The \<^verbatim>\<open>forEach\<close> of \<^verbatim>\<open>fromEvents\<close>: it stops at the first event that throws.\<close>

fun applyEvents :: "OrderAggregate \<Rightarrow> BaseEvent list \<Rightarrow> OrderAggregate outcome" where
  "applyEvents a [] = (None, a)"
| "applyEvents a (e # es) =
     (case applyEvent a e of
        (Some err, a1) \<Rightarrow> (Some err, a1)
      | (None, a1) \<Rightarrow> applyEvents a1 es)"

text \<open>
  The static factory returns an aggregate or throws, so its result is a sum. \<open>uuid\<close> is
  what \<^verbatim>\<open>uuidv4()\<close> returns should the first event carry an empty aggregate id.
\<close>

definition fromEvents :: "BaseEvent list \<Rightarrow> string \<Rightarrow> JsError + OrderAggregate" where
  "fromEvents events uuid =
     (case events of
        [] \<Rightarrow> Inl (Error ''Cannot create aggregate from empty event stream'')
      | e # _ \<Rightarrow>
          (case applyEvents (new_OrderAggregate (Some (aggregateId e)) uuid) events of
             (Some err, _) \<Rightarrow> Inl err
           | (None, a) \<Rightarrow> Inr (a\<lparr>uncommittedEvents := []\<rparr>)))"

text \<open>A command of the aggregate with its arguments, to speak of sequences of commands.\<close>

datatype Command =
    CreateOrder string "OrderItem list" Address string Stamp
  | UpdateStatus OrderStatus "string option" Stamp
  | ProcessPayment string "string option" "string option" Stamp Stamp
  | ShipOrder string string "Date option" Date Stamp Stamp
  | CancelOrder string "string option" "rat option" Stamp Stamp

fun exec :: "OrderAggregate \<Rightarrow> Command \<Rightarrow> OrderAggregate outcome" where
  "exec a (CreateOrder uid its addr pm st) = createOrder a uid its addr pm st"
| "exec a (UpdateStatus s ub st) = updateStatus a s ub st"
| "exec a (ProcessPayment ps txn gw st st2) = processPayment a ps txn gw st st2"
| "exec a (ShipOrder tr ca eta shippedAt st st2) = shipOrder a tr ca eta shippedAt st st2"
| "exec a (CancelOrder r cb refund st st2) = cancelOrder a r cb refund st st2"

fun run_commands :: "OrderAggregate \<Rightarrow> Command list \<Rightarrow> OrderAggregate outcome" where
  "run_commands a [] = (None, a)"
| "run_commands a (c # cs) =
     (case exec a c of
        (Some err, a1) \<Rightarrow> (Some err, a1)
      | (None, a1) \<Rightarrow> run_commands a1 cs)"

section \<open>The inventory collection\<close>

datatype MovementType = IN | OUT | RESERVED | RELEASED | ADJUSTMENT

record Movement =
  type' :: MovementType
  quantity :: rat
  reason :: string
  reference :: "string option"
  userId :: "string option"
  timestamp :: Date

text \<open>
  An inventory record as the collection stores it, with the fields the stock operations
  read and write; the thresholds, the location, the alerts and the timestamps that the
  schema options add are never read by them.
\<close>

record InventoryRecord =
  productId :: string
  quantity :: rat
  reservedQuantity :: rat
  lastUpdated :: Date
  movements :: "Movement list"

text \<open>
  The collection as the database holds it. Its unique index on \<^verbatim>\<open>productId\<close> makes it
  a map from product ids to records.
\<close>

type_synonym InventoryCollection = "string \<rightharpoonup> InventoryRecord"

text \<open>
  A document in memory: the values of the record as the program sees them, and what
  the document tracks for its next \<^verbatim>\<open>save\<close>: whether it is new, which of the two
  quantities and of the date were assigned a value other than the one they had, and
  the movements pushed since the document was loaded or last saved.
\<close>

record InventoryDocument = InventoryRecord +
  isNew :: bool
  quantityModified :: bool
  reservedQuantityModified :: bool
  lastUpdatedModified :: bool
  pushedMovements :: "Movement list"

text \<open>\<^verbatim>\<open>findByProductId\<close>: the stored record, as a document with nothing to save.\<close>

definition hydrate :: "InventoryRecord \<Rightarrow> InventoryDocument" where
  "hydrate r =
     \<lparr>InventoryRecord.productId = InventoryRecord.productId r,
      quantity = InventoryRecord.quantity r,
      reservedQuantity = reservedQuantity r,
      lastUpdated = lastUpdated r,
      movements = movements r,
      isNew = False, quantityModified = False, reservedQuantityModified = False,
      lastUpdatedModified = False, pushedMovements = []\<rparr>"

definition findByProductId :: "InventoryCollection \<Rightarrow> string \<Rightarrow> InventoryDocument option" where
  "findByProductId db pid = map_option hydrate (db pid)"

text \<open>
  The constructor of the model, called with the product id, both quantities and the
  movements: a new document, which \<^verbatim>\<open>save\<close> will insert, with the paths it was given
  marked as modified and the date at its default, the time of the call.
\<close>

definition new_Inventory ::
  "string \<Rightarrow> rat \<Rightarrow> rat \<Rightarrow> Movement list \<Rightarrow> Date \<Rightarrow> InventoryDocument" where
  "new_Inventory pid q reserved ms now =
     \<lparr>InventoryRecord.productId = pid, quantity = q, reservedQuantity = reserved,
      lastUpdated = now, movements = ms,
      isNew = True, quantityModified = True, reservedQuantityModified = True,
      lastUpdatedModified = True, pushedMovements = []\<rparr>"

text \<open>
  Assignments to the two quantities and to the date, and a push on the movements. An
  assignment marks its path as modified when the value differs from the one in memory.
\<close>

definition set_quantity :: "InventoryDocument \<Rightarrow> rat \<Rightarrow> InventoryDocument" where
  "set_quantity d v =
     d\<lparr>InventoryRecord.quantity := v,
       quantityModified := (quantityModified d \<or> v \<noteq> InventoryRecord.quantity d)\<rparr>"

definition set_reservedQuantity :: "InventoryDocument \<Rightarrow> rat \<Rightarrow> InventoryDocument" where
  "set_reservedQuantity d v =
     d\<lparr>reservedQuantity := v,
       reservedQuantityModified := (reservedQuantityModified d \<or> v \<noteq> reservedQuantity d)\<rparr>"

definition set_lastUpdated :: "InventoryDocument \<Rightarrow> Date \<Rightarrow> InventoryDocument" where
  "set_lastUpdated d v =
     d\<lparr>lastUpdated := v,
       lastUpdatedModified := (lastUpdatedModified d \<or> v \<noteq> lastUpdated d)\<rparr>"

definition push_movement :: "InventoryDocument \<Rightarrow> Movement \<Rightarrow> InventoryDocument" where
  "push_movement d m =
     d\<lparr>movements := movements d @ [m], pushedMovements := pushedMovements d @ [m]\<rparr>"

definition availableQuantity :: "InventoryDocument \<Rightarrow> rat" where
  "availableQuantity d =
     max 0 (InventoryRecord.quantity d - reservedQuantity d)"

definition isInteger :: "rat \<Rightarrow> bool" where
  "isInteger q \<longleftrightarrow> of_int \<lfloor>q\<rfloor> = q"

text \<open>
  The validators the schema declares, which \<^verbatim>\<open>save\<close> runs on the values in memory
  before the hooks: required strings are not empty, both quantities are integers and not
  negative. The error is a ValidationError; of the messages of the failing paths the
  model keeps the first.
\<close>

definition validateSchema :: "InventoryDocument \<Rightarrow> JsError option" where
  "validateSchema d =
     (if InventoryRecord.productId d = []
        then Some (ValidationError ''Product ID is required'')
      else if InventoryRecord.quantity d < 0
        then Some (ValidationError ''Quantity cannot be negative'')
      else if \<not> isInteger (InventoryRecord.quantity d)
        then Some (ValidationError ''Quantity must be a non-negative integer'')
      else if reservedQuantity d < 0
        then Some (ValidationError ''Reserved quantity cannot be negative'')
      else if \<not> isInteger (reservedQuantity d)
        then Some (ValidationError ''Reserved quantity must be a non-negative integer'')
      else if list_ex (\<lambda>m. Movement.reason m = []) (movements d)
        then Some (ValidationError ''Path `reason` is required.'')
      else None)"

text \<open>\<^verbatim>\<open>isModified\<close> on either quantity, as the first pre-save hook asks.\<close>

definition quantitiesModified :: "InventoryDocument \<Rightarrow> bool" where
  "quantitiesModified d \<longleftrightarrow> quantityModified d \<or> reservedQuantityModified d"

text \<open>After a write the document has nothing left to save.\<close>

definition saved :: "InventoryDocument \<Rightarrow> InventoryDocument" where
  "saved d = d\<lparr>isNew := False, quantityModified := False,
               reservedQuantityModified := False, lastUpdatedModified := False,
               pushedMovements := []\<rparr>"

text \<open>
  The write of \<^verbatim>\<open>save\<close>. The schema options set \<^verbatim>\<open>versionKey: false\<close>, so the write
  checks no version. A new document is inserted whole, and the unique index refuses a
  second record of the same product. A document that is not new updates the record the
  collection holds: only the modified paths are set, from the values in memory, and the
  pushed movements are appended to the stored movements; the other fields of the stored
  record stay as they are, whatever the document holds for them. No operation deletes a
  record or assigns a product id, so the record a document was loaded from is the one
  the collection holds for its product id. Of the messages of the two errors of the
  library the model keeps the beginning.
\<close>

definition writeDocument ::
  "InventoryDocument \<Rightarrow> InventoryCollection
     \<Rightarrow> JsError option \<times> InventoryDocument \<times> InventoryCollection" where
  "writeDocument d db =
     (case db (InventoryRecord.productId d) of
        None \<Rightarrow>
          if isNew d
          then (None, saved d,
                db(InventoryRecord.productId d \<mapsto>
                     \<lparr>InventoryRecord.productId = InventoryRecord.productId d,
                      quantity = InventoryRecord.quantity d,
                      reservedQuantity = reservedQuantity d,
                      lastUpdated = lastUpdated d,
                      movements = movements d\<rparr>))
          else (Some (JsError ''DocumentNotFoundError'' ''No document found for query''), d, db)
      | Some old \<Rightarrow>
          if isNew d
          then (Some (JsError ''MongoServerError'' ''E11000 duplicate key error''), d, db)
          else (None, saved d,
                db(InventoryRecord.productId d \<mapsto>
                     old\<lparr>InventoryRecord.quantity :=
                           (if quantityModified d then InventoryRecord.quantity d
                            else InventoryRecord.quantity old),
                         reservedQuantity :=
                           (if reservedQuantityModified d then reservedQuantity d
                            else reservedQuantity old),
                         lastUpdated :=
                           (if lastUpdatedModified d then lastUpdated d else lastUpdated old),
                         movements := movements old @ pushedMovements d\<rparr>)))"

text \<open>
  \<^verbatim>\<open>save\<close>: the schema validation, then the two pre-save hooks in the order they are
  registered, both on the values in memory, then the write. The result is the error,
  the document in memory and the collection.
\<close>

definition save ::
  "InventoryDocument \<Rightarrow> Date \<Rightarrow> InventoryCollection
     \<Rightarrow> JsError option \<times> InventoryDocument \<times> InventoryCollection" where
  "save d now db =
     (case validateSchema d of
        Some err \<Rightarrow> (Some err, d, db)
      | None \<Rightarrow>
          (let d1 = (if quantitiesModified d then set_lastUpdated d now else d) in
           if reservedQuantity d1 > InventoryRecord.quantity d1
           then (Some (Error ''Reserved quantity cannot exceed total quantity''), d1, db)
           else writeDocument d1 db))"

definition movement ::
  "MovementType \<Rightarrow> rat \<Rightarrow> string \<Rightarrow> string option \<Rightarrow> string option \<Rightarrow> Date \<Rightarrow> Movement" where
  "movement t q rs ref uid now =
     \<lparr>type' = t, quantity = q, reason = rs, reference = ref, userId = uid,
      timestamp = now\<rparr>"

definition reserve ::
  "InventoryDocument \<Rightarrow> rat \<Rightarrow> string \<Rightarrow> string option \<Rightarrow> string option \<Rightarrow> Date
     \<Rightarrow> InventoryCollection \<Rightarrow> JsError option \<times> InventoryDocument \<times> InventoryCollection" where
  "reserve d q rs ref uid now db =
     (if q \<le> 0 then (Some (Error ''Reserve quantity must be positive''), d, db)
      else if availableQuantity d < q
        then (Some (Error ''Insufficient available quantity to reserve''), d, db)
      else save (push_movement (set_reservedQuantity d (reservedQuantity d + q))
                   (movement RESERVED q rs ref uid now))
             now db)"


definition adjust ::
  "InventoryDocument \<Rightarrow> rat \<Rightarrow> string \<Rightarrow> string option \<Rightarrow> Date
     \<Rightarrow> InventoryCollection \<Rightarrow> JsError option \<times> InventoryDocument \<times> InventoryCollection" where
  "adjust d newQuantity rs uid now db =
     (if newQuantity < 0 then (Some (Error ''Quantity cannot be negative''), d, db)
      else if newQuantity < reservedQuantity d
        then (Some (Error ''New quantity cannot be less than reserved quantity''), d, db)
      else save (push_movement (set_quantity d newQuantity)
                   (movement ADJUSTMENT (newQuantity - InventoryRecord.quantity d)
                      rs None uid now))
             now db)"


definition removeStock ::
  "InventoryDocument \<Rightarrow> rat \<Rightarrow> string \<Rightarrow> string option \<Rightarrow> string option \<Rightarrow> Date
     \<Rightarrow> InventoryCollection \<Rightarrow> JsError option \<times> InventoryDocument \<times> InventoryCollection" where
  "removeStock d q rs ref uid now db =
     (if q \<le> 0 then (Some (Error ''Remove quantity must be positive''), d, db)
      else if InventoryRecord.quantity d < q
        then (Some (Error ''Insufficient quantity to remove''), d, db)
      else save (push_movement (set_quantity d (InventoryRecord.quantity d - q))
                   (movement OUT q rs ref uid now))
             now db)"

section \<open>The inventory service and the order-created handler\<close>

text \<open>
  The service methods on the collection. Logging, and publishing to the event bus after
  a document is saved, do not touch the collection and are left out; the numbers that
  the messages of the stock errors quote are left out as well.
\<close>

definition initializeInventory ::
  "InventoryCollection \<Rightarrow> string \<Rightarrow> rat \<Rightarrow> string \<Rightarrow> string option \<Rightarrow> Date
     \<Rightarrow> InventoryCollection outcome" where
  "initializeInventory db pid initialStock rs uid now =
     (case findByProductId db pid of
        Some existingInventory \<Rightarrow>
          (Some (ConflictError ''Inventory already exists for this product''), db)
      | None \<Rightarrow>
          (case save (new_Inventory pid initialStock 0
                        (if initialStock > 0
                         then [movement IN initialStock rs None uid now]
                         else [])
                        now) now db of
             (err, d, db1) \<Rightarrow> (err, db1)))"

definition reserveStock ::
  "InventoryCollection \<Rightarrow> string \<Rightarrow> rat \<Rightarrow> string \<Rightarrow> string option \<Rightarrow> string option \<Rightarrow> Date
     \<Rightarrow> InventoryCollection outcome" where
  "reserveStock db pid q rs ref uid now =
     (case findByProductId db pid of
        None \<Rightarrow>
          (case initializeInventory db pid 0 ''Auto-initialized for reservation'' None now of
             (Some err, db1) \<Rightarrow> (Some err, db1)
           | (None, db1) \<Rightarrow>
               (case findByProductId db1 pid of
                  None \<Rightarrow> (Some (Error ''Failed to initialize inventory''), db1)
                | Some newInventory \<Rightarrow>
                    if q > 0
                    then (Some (ValidationError (''Insufficient stock for product '' @ pid)), db1)
                    else (None, db1)))
      | Some inventory \<Rightarrow>
          if availableQuantity inventory < q
          then (Some (ValidationError (''Insufficient stock for product '' @ pid)), db)
          else (case reserve inventory q rs ref uid now db of
                  (err, d, db1) \<Rightarrow> (err, db1)))"

text \<open>The loop of the handler over the items of the order: it stops at the first throw.\<close>

fun reserveItems ::
  "InventoryCollection \<Rightarrow> string \<Rightarrow> OrderItem list \<Rightarrow> Date \<Rightarrow> InventoryCollection outcome" where
  "reserveItems db orderId [] now = (None, db)"
| "reserveItems db orderId (item # rest) now =
     (case reserveStock db (OrderItem.productId item) (OrderItem.quantity item)
             (''Order reservation for order '' @ orderId) (Some orderId) None now of
        (Some err, db1) \<Rightarrow> (Some err, db1)
      | (None, db1) \<Rightarrow> reserveItems db1 orderId rest now)"

text \<open>
  \<^verbatim>\<open>OrderCreatedHandler.handle\<close>. The handler is subscribed to OrderCreated events; on
  the data of another event there are no items to iterate over.
\<close>

definition OrderCreatedHandler_handle ::
  "InventoryCollection \<Rightarrow> BaseEvent \<Rightarrow> Date \<Rightarrow> InventoryCollection outcome" where
  "OrderCreatedHandler_handle db event now =
     (case data event of
        OrderCreatedData orderId uid its tot addr pm \<Rightarrow> reserveItems db orderId its now
      | _ \<Rightarrow> (Some (JsError ''TypeError'' ''items is not iterable''), db))"








section \<open>Wrapped calls and their world\<close>

text \<open>
  What a wrapped call and its wrappers act on: the clock (\<^verbatim>\<open>Date.now()\<close>, in
  milliseconds), the values \<^verbatim>\<open>Math.random()\<close> will return and how many have been
  drawn, the delays slept so far, and whatever else the call touches. A wrapped call
  takes the world and returns its value or the error it throws, with the world after it.
\<close>

record 'x world =
  clock :: Date
  rng :: "nat \<Rightarrow> rat"
  drawn :: nat
  sleeps :: "int list"
  ext :: 'x

type_synonym ('x, 'r) wrapped = "'x world \<Rightarrow> (JsError + 'r) \<times> 'x world"

text \<open>\<^verbatim>\<open>sleep\<close> waits on a timer; the model logs the delay and moves the clock by it.\<close>

definition sleep :: "int \<Rightarrow> 'x world \<Rightarrow> 'x world" where
  "sleep ms w = w\<lparr>clock := clock w + max 0 ms, sleeps := sleeps w @ [ms]\<rparr>"

section \<open>The circuit breaker\<close>

datatype BreakerState = CLOSED | OPEN | HALF_OPEN

record CircuitBreakerOptions =
  failureThreshold :: int
  resetTimeout :: int
  monitoringPeriod :: int
  expectedErrors :: "string list"

record CircuitBreaker =
  state :: BreakerState
  failureCount :: int
  lastFailureTime :: "Date option"
  nextAttempt :: "Date option"
  options :: CircuitBreakerOptions
  name :: string

text \<open>
  The constructor takes partial options: an absent number, and the number zero, are
  falsy and give way to the default.
\<close>

definition orDefault :: "int option \<Rightarrow> int \<Rightarrow> int" where
  "orDefault v dflt = (case v of None \<Rightarrow> dflt | Some n \<Rightarrow> if n = 0 then dflt else n)"

definition new_CircuitBreaker ::
  "string \<Rightarrow> int option \<Rightarrow> int option \<Rightarrow> int option \<Rightarrow> string list option \<Rightarrow> CircuitBreaker" where
  "new_CircuitBreaker nm threshold timeout period expected =
     \<lparr>state = CLOSED, failureCount = 0, lastFailureTime = None, nextAttempt = None,
      options = \<lparr>failureThreshold = orDefault threshold 5,
                 resetTimeout = orDefault timeout 60000,
                 monitoringPeriod = orDefault period 10000,
                 expectedErrors = (case expected of None \<Rightarrow> [] | Some es \<Rightarrow> es)\<rparr>,
      name = nm\<rparr>"

text \<open>
  The default options, with the environment variables for the threshold and the reset
  timeout unset.
\<close>

definition defaultCircuitBreakerOptions :: CircuitBreakerOptions where
  "defaultCircuitBreakerOptions =
     \<lparr>failureThreshold = 5, resetTimeout = 30000, monitoringPeriod = 10000,
      expectedErrors = [''ValidationError'', ''AuthenticationError'', ''AuthorizationError'']\<rparr>"

text \<open>\<^verbatim>\<open>String.prototype.includes\<close>: the second string occurs in the first.\<close>

fun startsWith :: "string \<Rightarrow> string \<Rightarrow> bool" where
  "startsWith s [] = True"
| "startsWith [] (c # cs) = False"
| "startsWith (x # xs) (c # cs) = (x = c \<and> startsWith xs cs)"

fun includes' :: "string \<Rightarrow> string \<Rightarrow> bool" where
  "includes' [] sub = (sub = [])"
| "includes' (x # xs) sub = (startsWith (x # xs) sub \<or> includes' xs sub)"

definition isExpectedError :: "CircuitBreaker \<Rightarrow> JsError \<Rightarrow> bool" where
  "isExpectedError b err =
     list_ex (\<lambda>expectedError. includes' (errMessage err) expectedError
                               \<or> errName err = expectedError)
       (expectedErrors (options b))"

definition shouldAttemptReset :: "CircuitBreaker \<Rightarrow> 'x world \<Rightarrow> bool" where
  "shouldAttemptReset b w =
     (case nextAttempt b of None \<Rightarrow> False | Some t \<Rightarrow> clock w \<ge> t)"

definition onSuccess :: "CircuitBreaker \<Rightarrow> CircuitBreaker" where
  "onSuccess b =
     (let b1 = b\<lparr>failureCount := 0, lastFailureTime := None\<rparr>
      in if state b1 = HALF_OPEN then b1\<lparr>state := CLOSED\<rparr> else b1)"

definition onFailure :: "CircuitBreaker \<Rightarrow> JsError \<Rightarrow> Date \<Rightarrow> CircuitBreaker" where
  "onFailure b err now =
     (if isExpectedError b err then b
      else
        (let b1 = b\<lparr>failureCount := failureCount b + 1, lastFailureTime := Some now\<rparr>
         in if failureCount b1 \<ge> failureThreshold (options b1)
            then b1\<lparr>state := OPEN,
                    nextAttempt := Some (now + resetTimeout (options b1))\<rparr>
            else b1))"

text \<open>The \<^verbatim>\<open>try\<close> block of \<^verbatim>\<open>execute\<close>: the call, then the bookkeeping.\<close>

definition attemptCall ::
  "CircuitBreaker \<Rightarrow> ('x, 'r) wrapped \<Rightarrow> 'x world
     \<Rightarrow> (JsError + 'r) \<times> CircuitBreaker \<times> 'x world" where
  "attemptCall b fn w =
     (case fn w of
        (Inr v, w1) \<Rightarrow> (Inr v, onSuccess b, w1)
      | (Inl err, w1) \<Rightarrow> (Inl err, onFailure b err (clock w1), w1))"

definition CircuitBreaker_execute ::
  "CircuitBreaker \<Rightarrow> ('x, 'r) wrapped \<Rightarrow> 'x world
     \<Rightarrow> (JsError + 'r) \<times> CircuitBreaker \<times> 'x world" where
  "CircuitBreaker_execute b fn w =
     (if state b = OPEN
      then (if shouldAttemptReset b w
            then attemptCall (b\<lparr>state := HALF_OPEN\<rparr>) fn w
            else (Inl (Error (''Circuit breaker '' @ name b @ '' is OPEN'')), b, w))
      else attemptCall b fn w)"

definition reset :: "CircuitBreaker \<Rightarrow> CircuitBreaker" where
  "reset b = b\<lparr>state := CLOSED, failureCount := 0, lastFailureTime := None,
               nextAttempt := None\<rparr>"

section \<open>The retry handler\<close>

record RetryOptions =
  maxAttempts :: int
  baseDelay :: rat
  maxDelay :: rat
  backoffMultiplier :: rat
  jitter :: bool
  retryCondition :: "JsError \<Rightarrow> bool"

definition orDefaultNumber :: "rat option \<Rightarrow> rat \<Rightarrow> rat" where
  "orDefaultNumber v dflt = (case v of None \<Rightarrow> dflt | Some n \<Rightarrow> if n = 0 then dflt else n)"

definition new_RetryHandler ::
  "int option \<Rightarrow> rat option \<Rightarrow> rat option \<Rightarrow> rat option \<Rightarrow> bool option
     \<Rightarrow> (JsError \<Rightarrow> bool) option \<Rightarrow> RetryOptions" where
  "new_RetryHandler attempts base maxd mult jit cond =
     \<lparr>maxAttempts = orDefault attempts 3,
      baseDelay = orDefaultNumber base 1000,
      maxDelay = orDefaultNumber maxd 30000,
      backoffMultiplier = orDefaultNumber mult 2,
      jitter = (jit \<noteq> Some False),
      retryCondition = (case cond of None \<Rightarrow> (\<lambda>err. True) | Some c \<Rightarrow> c)\<rparr>"

definition nonRetryableErrors :: "string list" where
  "nonRetryableErrors = [''ValidationError'', ''AuthenticationError'', ''AuthorizationError'']"

definition defaultRetryOptions :: RetryOptions where
  "defaultRetryOptions =
     \<lparr>maxAttempts = 3, baseDelay = 1000, maxDelay = 10000, backoffMultiplier = 2,
      jitter = True,
      retryCondition = (\<lambda>err. errName err \<notin> set nonRetryableErrors)\<rparr>"

text \<open>
  \<^verbatim>\<open>calculateDelay\<close>, with the value \<open>r\<close> that \<^verbatim>\<open>Math.random()\<close> returns, which
  lies between 0 and 1, 1 excluded, and is read only when the jitter is on. The numbers
  are exact rationals. In the double arithmetic of the program each operation rounds
  its result: for the largest draw, \<open>1 - 2^-53\<close>, the factor \<open>0.5 + r * 0.5\<close> rounds to
  1, so the delay of the program can be the capped backoff itself, which no draw
  reaches in exact arithmetic.
\<close>

definition calculateDelay :: "RetryOptions \<Rightarrow> int \<Rightarrow> rat \<Rightarrow> int" where
  "calculateDelay opts attempt r =
     (let delay = baseDelay opts * backoffMultiplier opts powi (attempt - 1);
          delay = min delay (maxDelay opts);
          delay = (if jitter opts then delay * (1 / 2 + r * (1 / 2)) else delay)
      in \<lfloor>delay\<rfloor>)"

text \<open>
  What follows the loop: the last error is logged and thrown. When the loop never ran
  there is none, and reading its message throws a TypeError.
\<close>

definition afterLoop :: "JsError option \<Rightarrow> 'x world \<Rightarrow> (JsError + 'r) \<times> 'x world" where
  "afterLoop lastError w =
     (case lastError of
        None \<Rightarrow> (Inl (JsError ''TypeError'' ''Cannot read properties of undefined''), w)
      | Some err \<Rightarrow> (Inl err, w))"

text \<open>The delay before the next attempt, drawing a random number when the jitter is on.\<close>

definition nextDelay :: "RetryOptions \<Rightarrow> int \<Rightarrow> 'x world \<Rightarrow> int \<times> 'x world" where
  "nextDelay opts attempt w =
     (if jitter opts
      then (calculateDelay opts attempt (rng w (drawn w)), w\<lparr>drawn := drawn w + 1\<rparr>)
      else (calculateDelay opts attempt 0, w))"

text \<open>The loop of \<^verbatim>\<open>RetryHandler.execute\<close>, from attempt \<open>attempt\<close> on.\<close>

function retryLoop ::
  "RetryOptions \<Rightarrow> ('x, 'r) wrapped \<Rightarrow> int \<Rightarrow> JsError option \<Rightarrow> 'x world
     \<Rightarrow> (JsError + 'r) \<times> 'x world" where
  "retryLoop opts fn attempt lastError w =
     (if attempt \<le> maxAttempts opts
      then (case fn w of
              (Inr v, w1) \<Rightarrow> (Inr v, w1)
            | (Inl err, w1) \<Rightarrow>
                if \<not> retryCondition opts err then (Inl err, w1)
                else if attempt = maxAttempts opts then afterLoop (Some err) w1
                else (case nextDelay opts attempt w1 of
                        (delay, w2) \<Rightarrow>
                          retryLoop opts fn (attempt + 1) (Some err) (sleep delay w2)))
      else afterLoop lastError w)"
  by pat_completeness auto
termination
  by (relation "measure (\<lambda>(opts, fn, attempt, lastError, w). nat (maxAttempts opts + 1 - attempt))")
     auto

declare retryLoop.simps [simp del]

definition RetryHandler_execute ::
  "RetryOptions \<Rightarrow> ('x, 'r) wrapped \<Rightarrow> 'x world \<Rightarrow> (JsError + 'r) \<times> 'x world" where
  "RetryHandler_execute opts fn w = retryLoop opts fn 1 None w"

text \<open>\<^verbatim>\<open>ResilientExecutor.execute\<close>: the retries run inside the circuit breaker.\<close>

definition ResilientExecutor_execute ::
  "CircuitBreaker \<Rightarrow> RetryOptions \<Rightarrow> ('x, 'r) wrapped \<Rightarrow> 'x world
     \<Rightarrow> (JsError + 'r) \<times> CircuitBreaker \<times> 'x world" where
  "ResilientExecutor_execute b opts fn w =
     CircuitBreaker_execute b (RetryHandler_execute opts fn) w"

section \<open>Notions used to state the properties\<close>

text \<open>
  A wrapped call that returns the given result and leaves the world alone, and the
  circuit breaker after a sequence of such calls.
\<close>

definition returning :: "(JsError + 'r) \<Rightarrow> ('x, 'r) wrapped" where
  "returning res w = (res, w)"

definition run_calls ::
  "CircuitBreaker \<Rightarrow> (JsError + 'r) list \<Rightarrow> 'x world \<Rightarrow> CircuitBreaker" where
  "run_calls b results w =
     foldl (\<lambda>b1 res. fst (snd (CircuitBreaker_execute b1 (returning res) w))) b results"

text \<open>
  The streak of a sequence of results: the number of failures with an error that is not
  expected since the last success. A failure with an expected error is skipped.
\<close>

definition streak :: "CircuitBreaker \<Rightarrow> (JsError + 'r) list \<Rightarrow> int" where
  "streak b results =
     foldl (\<lambda>n res. case res of Inr v \<Rightarrow> 0
                              | Inl e \<Rightarrow> if isExpectedError b e then n else n + 1)
       0 results"

text \<open>
  The invariant of a circuit breaker with a positive threshold: it is CLOSED exactly
  while its failure count is below the threshold, and when OPEN it knows its next attempt.
\<close>

definition breaker_inv :: "CircuitBreaker \<Rightarrow> bool" where
  "breaker_inv b \<longleftrightarrow>
     0 < failureThreshold (options b)
     \<and> (state b = CLOSED \<longleftrightarrow> failureCount b < failureThreshold (options b))
     \<and> (state b = OPEN \<longrightarrow> nextAttempt b \<noteq> None)"

definition openError :: "CircuitBreaker \<Rightarrow> JsError" where
  "openError b = Error (''Circuit breaker '' @ name b @ '' is OPEN'')"


text \<open>The transition graph of the order state machine, as a set of edges.\<close>

definition allowedTransitions :: "(OrderStatus \<times> OrderStatus) set" where
  "allowedTransitions =
     {(PENDING, CONFIRMED), (PENDING, CANCELLED),
      (CONFIRMED, PROCESSING), (CONFIRMED, CANCELLED),
      (PROCESSING, SHIPPED), (PROCESSING, CANCELLED),
      (SHIPPED, DELIVERED)}"

text \<open>
  An aggregate is replayable when applying its own buffer of events to a blank aggregate
  of the same id gives the aggregate back.
\<close>

definition replayable :: "OrderAggregate \<Rightarrow> bool" where
  "replayable a \<longleftrightarrow>
     applyEvents (new_OrderAggregate None (OrderAggregate.id' a)) (uncommittedEvents a)
       = (None, a)"

subsection \<open>Sample orders\<close>

definition addr0 :: Address where
  "addr0 = \<lparr>street = ''1 Main St'', city = ''Nairobi'', state = ''NA'',
             zipCode = ''00100'', country = ''KE''\<rparr>"

definition stampOf :: "nat \<Rightarrow> Stamp" where
  "stampOf n = \<lparr>stampId = replicate n CHR ''e'', stampTime = int n\<rparr>"

definition item0 :: OrderItem where
  "item0 = \<lparr>OrderItem.productId = ''p1'', quantity = 2, price = 10, name = ''Widget''\<rparr>"

definition sampleCommands :: "Command list" where
  "sampleCommands =
     [CreateOrder ''u1'' [item0] addr0 ''card'' (stampOf 1),
      ProcessPayment ''completed'' None None (stampOf 2) (stampOf 3),
      UpdateStatus PROCESSING None (stampOf 4),
      ShipOrder ''trk'' ''dhl'' None 100 (stampOf 5) (stampOf 6)]"

definition shippedOrder :: OrderAggregate where
  "shippedOrder = snd (run_commands (new_OrderAggregate None ''agg-1'') sampleCommands)"

definition confirmedOrder :: OrderAggregate where
  "confirmedOrder =
     snd (run_commands (new_OrderAggregate None ''agg-1'') (take 2 sampleCommands))"

subsection \<open>Sample stock\<close>

definition record0 :: InventoryRecord where
  "record0 = \<lparr>InventoryRecord.productId = ''p1'', quantity = 10, reservedQuantity = 0,
               lastUpdated = 0, movements = []\<rparr>"

definition stock0 :: InventoryCollection where
  "stock0 = [''p1'' \<mapsto> record0]"

definition orderCreated0 :: BaseEvent where
  "orderCreated0 =
     createEvent ''o1'' ''Order'' (OrderCreatedData ''o1'' ''u1'' [item0] 20 addr0 ''card'')
       1 (stampOf 1)"

subsection \<open>Sample calls\<close>

text \<open>
  A world whose random generator always returns 0 and whose last component counts the
  calls made, a call that counts itself and throws, and a circuit breaker built with
  the default options.
\<close>

definition world0 :: "nat world" where
  "world0 = \<lparr>clock = 0, rng = (\<lambda>n. 0), drawn = 0, sleeps = [], ext = 0\<rparr>"

definition failingWith :: "JsError \<Rightarrow> (nat, unit) wrapped" where
  "failingWith err w = (Inl err, w\<lparr>ext := ext w + 1\<rparr>)"

definition defaultBreaker :: CircuitBreaker where
  "defaultBreaker =
     new_CircuitBreaker ''product-service''
       (Some (failureThreshold defaultCircuitBreakerOptions))
       (Some (resetTimeout defaultCircuitBreakerOptions))
       (Some (monitoringPeriod defaultCircuitBreakerOptions))
       (Some (expectedErrors defaultCircuitBreakerOptions))"

definition refused :: "JsError + unit" where
  "refused = Inl (Error ''connect ECONNREFUSED'')"

definition openBreaker :: CircuitBreaker where
  "openBreaker = run_calls defaultBreaker [refused, refused, refused, refused, refused] world0"

section \<open>Properties of the order aggregate\<close>

lemmas order_defs = createOrder_def updateStatus_def processPayment_def shipOrder_def
  cancelOrder_def applyEvent_def createEvent_def isValidStatusTransition_def
  new_OrderAggregate_def orderTotal_def

lemma orderTotal_sum: "orderTotal its = sum_list (map (\<lambda>i. price i * OrderItem.quantity i) its)"
proof -
  have "foldl (\<lambda>acc item. acc + price item * OrderItem.quantity item) z its
        = z + sum_list (map (\<lambda>i. price i * OrderItem.quantity i) its)" for z
    by (induction its arbitrary: z) (simp_all add: algebra_simps)
  from this [of 0] show ?thesis by (simp add: orderTotal_def)
qed

lemma isValid_graph: "isValidStatusTransition s n \<longleftrightarrow> (s, n) \<in> allowedTransitions"
  by (cases s; cases n) (simp_all add: isValidStatusTransition_def allowedTransitions_def)

lemma sampleCommands_run:
  "fst (run_commands (new_OrderAggregate None ''agg-1'') sampleCommands) = None"
  by (simp add: sampleCommands_def order_defs item0_def)

lemma shippedOrder_fields:
  "status shippedOrder = SHIPPED \<and> totalAmount shippedOrder = 20
   \<and> items shippedOrder = [item0] \<and> OrderAggregate.version shippedOrder = 6"
  by (simp add: shippedOrder_def sampleCommands_def order_defs item0_def)

lemma confirmedOrder_fields:
  "status confirmedOrder = CONFIRMED \<and> totalAmount confirmedOrder = 20
   \<and> OrderAggregate.version confirmedOrder = 3 \<and> OrderAggregate.id' confirmedOrder = ''agg-1''
   \<and> length (uncommittedEvents confirmedOrder) = 3"
  by (simp add: confirmedOrder_def sampleCommands_def order_defs item0_def)

subsection \<open>Creating an order\<close>

text \<open>
  C10. \<open>createOrder\<close> on an aggregate that has already applied an event (version above
  zero) throws \<open>Order already exists\<close> whatever the items are, also for an empty item
  list, and leaves the aggregate as it was: no event is emitted.
\<close>

theorem createOrder_existing:
  "0 < OrderAggregate.version a \<Longrightarrow>
     createOrder a uid its addr pm st = (Some (Error ''Order already exists''), a)"
  by (simp add: createOrder_def)

theorem createOrder_existing_witness:
  "0 < OrderAggregate.version shippedOrder
   \<and> createOrder shippedOrder ''u2'' [] addr0 ''card'' (stampOf 9)
       = (Some (Error ''Order already exists''), shippedOrder)"
proof -
  have h: "0 < OrderAggregate.version shippedOrder"
    by (simp add: shippedOrder_fields)
  from createOrder_existing [OF h] h show ?thesis by blast
qed

text \<open>
  C7, as the claim states it: the failure of \<open>createOrder\<close> is a ValidationError. The
  aggregate throws a plain \<^verbatim>\<open>Error\<close>, whose name is \<open>Error\<close>.
\<close>

theorem createOrder_error_class_counterexample:
  "fst (createOrder (new_OrderAggregate None ''agg-1'') ''u1'' [] addr0 ''card'' (stampOf 1))
     = Some (JsError ''Error'' ''Order must have at least one item'')
   \<and> errName (JsError ''Error'' ''Order must have at least one item'') \<noteq> ''ValidationError''"
  by (simp add: createOrder_def new_OrderAggregate_def)

text \<open>
  C7, amended. On a fresh aggregate \<open>createOrder\<close> throws a plain Error and emits nothing
  when the items are empty or their total, the sum of price times quantity, is at most
  zero; otherwise it emits exactly one OrderCreated event, of version 1, and leaves the
  aggregate in status PENDING with that total as its total amount.
\<close>

theorem createOrder_fresh:
  "createOrder (new_OrderAggregate idopt uuid) uid its addr pm st =
     (if its = []
        then (Some (Error ''Order must have at least one item''),
              new_OrderAggregate idopt uuid)
      else if sum_list (map (\<lambda>i. price i * OrderItem.quantity i) its) \<le> 0
        then (Some (Error ''Order total must be greater than zero''),
              new_OrderAggregate idopt uuid)
      else (None, (new_OrderAggregate idopt uuid)
              \<lparr>OrderAggregate.userId := uid, items := its,
               totalAmount := sum_list (map (\<lambda>i. price i * OrderItem.quantity i) its),
               shippingAddress := addr, paymentMethod := pm, status := PENDING,
               OrderAggregate.version := 1,
               uncommittedEvents :=
                 [createEvent (OrderAggregate.id' (new_OrderAggregate idopt uuid)) ''Order''
                    (OrderCreatedData (OrderAggregate.id' (new_OrderAggregate idopt uuid))
                       uid its (sum_list (map (\<lambda>i. price i * OrderItem.quantity i) its)) addr pm)
                    1 st]\<rparr>))"
  by (simp add: createOrder_def orderTotal_sum new_OrderAggregate_def applyEvent_def
        createEvent_def)

theorem createOrder_fresh_witness:
  "fst (createOrder (new_OrderAggregate None ''agg-1'') ''u1'' [item0] addr0 ''card'' (stampOf 1))
     = None
   \<and> status (snd (createOrder (new_OrderAggregate None ''agg-1'') ''u1'' [item0] addr0
                    ''card'' (stampOf 1))) = PENDING
   \<and> totalAmount (snd (createOrder (new_OrderAggregate None ''agg-1'') ''u1'' [item0] addr0
                    ''card'' (stampOf 1))) = 20
   \<and> map BaseEvent.version
        (uncommittedEvents (snd (createOrder (new_OrderAggregate None ''agg-1'') ''u1''
                                   [item0] addr0 ''card'' (stampOf 1)))) = [1]"
proof -
  note eq = createOrder_fresh [of None "''agg-1''" "''u1''" "[item0]" addr0 "''card''" "stampOf 1"]
  show ?thesis unfolding eq by (simp add: item0_def createEvent_def)
qed

subsection \<open>Status transitions\<close>

text \<open>
  C1, as the claim states it: every change along the graph succeeds. On an aggregate
  that has applied no event the guard on the version comes first, and the allowed change
  from PENDING to CONFIRMED fails with \<open>Order does not exist\<close>.
\<close>

theorem updateStatus_counterexample:
  "(status (new_OrderAggregate None ''agg-1''), CONFIRMED) \<in> allowedTransitions
   \<and> updateStatus (new_OrderAggregate None ''agg-1'') CONFIRMED None (stampOf 1)
       = (Some (Error ''Order does not exist''), new_OrderAggregate None ''agg-1'')"
  by (simp add: updateStatus_def new_OrderAggregate_def allowedTransitions_def)

text \<open>
  C1, amended. On an aggregate of version 0, \<open>updateStatus\<close> throws
  \<open>Order does not exist\<close>, whatever the requested status, and leaves the aggregate as
  it was. On an aggregate whose version is not zero, a request for the current status
  returns with no event, and a request for another status succeeds exactly when the
  change is an edge of the transition graph: it then emits one OrderStatusUpdated event
  of the next version and takes the new status; any other change throws
  \<open>Invalid status transition\<close> and leaves the aggregate as it was. DELIVERED and
  CANCELLED have no outgoing edge.
\<close>

theorem updateStatus_graph:
  "(OrderAggregate.version a = 0 \<longrightarrow>
      updateStatus a newStatus updatedBy st = (Some (Error ''Order does not exist''), a))
   \<and> (OrderAggregate.version a \<noteq> 0 \<and> newStatus = status a \<longrightarrow>
        updateStatus a newStatus updatedBy st = (None, a))
   \<and> (OrderAggregate.version a \<noteq> 0 \<and> newStatus \<noteq> status a \<longrightarrow>
        updateStatus a newStatus updatedBy st =
          (if (status a, newStatus) \<in> allowedTransitions
           then (None, a\<lparr>status := newStatus,
                          OrderAggregate.version := OrderAggregate.version a + 1,
                          uncommittedEvents := uncommittedEvents a @
                            [createEvent (OrderAggregate.id' a) ''Order''
                               (OrderStatusUpdatedData (OrderAggregate.id' a) (status a)
                                  newStatus updatedBy)
                               (OrderAggregate.version a + 1) st]\<rparr>)
           else (Some (Error (''Invalid status transition from '' @ status_str (status a)
                               @ '' to '' @ status_str newStatus)), a)))
   \<and> (DELIVERED, s) \<notin> allowedTransitions \<and> (CANCELLED, s) \<notin> allowedTransitions"
  by (auto simp add: updateStatus_def isValid_graph applyEvent_def createEvent_def
        allowedTransitions_def)

text \<open>
  The witness: on the shipped sample order the change to DELIVERED succeeds and the
  change back to PROCESSING throws; on a new aggregate, of version 0, the change from
  PENDING to CANCELLED throws \<open>Order does not exist\<close>.
\<close>

theorem updateStatus_graph_witness:
  "OrderAggregate.version shippedOrder \<noteq> 0
   \<and> fst (updateStatus shippedOrder DELIVERED None (stampOf 7)) = None
   \<and> status (snd (updateStatus shippedOrder DELIVERED None (stampOf 7))) = DELIVERED
   \<and> updateStatus shippedOrder PROCESSING None (stampOf 7)
       = (Some (Error ''Invalid status transition from shipped to processing''), shippedOrder)
   \<and> OrderAggregate.version (new_OrderAggregate None ''agg-1'') = 0
   \<and> updateStatus (new_OrderAggregate None ''agg-1'') CANCELLED None (stampOf 1)
       = (Some (Error ''Order does not exist''), new_OrderAggregate None ''agg-1'')"
proof -
  have v: "OrderAggregate.version shippedOrder \<noteq> 0" and s: "status shippedOrder = SHIPPED"
    by (simp_all add: shippedOrder_fields)
  have v0: "OrderAggregate.version (new_OrderAggregate None ''agg-1'') = 0"
    by (simp add: new_OrderAggregate_def)
  from updateStatus_graph [of shippedOrder DELIVERED None "stampOf 7"]
       updateStatus_graph [of shippedOrder PROCESSING None "stampOf 7"]
       updateStatus_graph [of "new_OrderAggregate None ''agg-1''" CANCELLED None "stampOf 1"]
       v s v0
  show ?thesis by (simp add: allowedTransitions_def)
qed

subsection \<open>Cancelling an order\<close>

text \<open>
  The statuses on which the command and the transition table agree. For an order of
  positive version, \<open>cancelOrder\<close> throws and changes nothing when the status is
  DELIVERED or CANCELLED; when the status is PENDING, CONFIRMED or PROCESSING it emits
  OrderCancelled, carrying the refund it was given, then OrderStatusUpdated, and ends
  in CANCELLED. The service calls it with the order total as the refund when the order
  is CONFIRMED at that moment, and with no refund on any other status.
\<close>

lemma cancelOrder_other_statuses:
  assumes "0 < OrderAggregate.version a"
  shows "(status a = DELIVERED \<or> status a = CANCELLED \<longrightarrow>
            cancelOrder a rsn cb refund st st2
              = (Some (Error (''Cannot cancel order with status '' @ status_str (status a))), a))
       \<and> (status a = PENDING \<or> status a = CONFIRMED \<or> status a = PROCESSING \<longrightarrow>
            cancelOrder a rsn cb refund st st2
              = (None, a\<lparr>status := CANCELLED,
                          OrderAggregate.version := OrderAggregate.version a + 2,
                          uncommittedEvents := uncommittedEvents a @
                            [createEvent (OrderAggregate.id' a) ''Order''
                               (OrderCancelledData (OrderAggregate.id' a) rsn cb refund)
                               (OrderAggregate.version a + 1) st,
                             createEvent (OrderAggregate.id' a) ''Order''
                               (OrderStatusUpdatedData (OrderAggregate.id' a) (status a)
                                  CANCELLED None)
                               (OrderAggregate.version a + 2) st2]\<rparr>))
       \<and> OrderService_cancelOrder a rsn cb st st2
           = cancelOrder a rsn cb
               (if status a = CONFIRMED then Some (totalAmount a) else None) st st2"
  using assms
  by (auto simp add: cancelOrder_def updateStatus_def applyEvent_def createEvent_def
        isValidStatusTransition_def OrderService_cancelOrder_def)

text \<open>
  On the confirmed sample order, whose total is 20, the service cancels with a refund
  of 20 and the order ends in CANCELLED.
\<close>

lemma cancelOrder_confirmed:
  "0 < OrderAggregate.version confirmedOrder \<and> status confirmedOrder = CONFIRMED
   \<and> fst (OrderService_cancelOrder confirmedOrder ''changed mind'' None (stampOf 7) (stampOf 8))
       = None
   \<and> status (snd (OrderService_cancelOrder confirmedOrder ''changed mind'' None
                    (stampOf 7) (stampOf 8))) = CANCELLED
   \<and> map data (drop 3 (uncommittedEvents
           (snd (OrderService_cancelOrder confirmedOrder ''changed mind'' None
                   (stampOf 7) (stampOf 8)))))
       = [OrderCancelledData ''agg-1'' ''changed mind'' None (Some 20),
          OrderStatusUpdatedData ''agg-1'' CONFIRMED CANCELLED None]"
proof -
  have v: "0 < OrderAggregate.version confirmedOrder"
    by (simp add: confirmedOrder_fields)
  note c = cancelOrder_other_statuses [OF v, of "''changed mind''" None "Some 20" "stampOf 7" "stampOf 8"]
  have svc: "OrderService_cancelOrder confirmedOrder ''changed mind'' None (stampOf 7) (stampOf 8)
       = cancelOrder confirmedOrder ''changed mind'' None (Some 20) (stampOf 7) (stampOf 8)"
    using c by (simp add: confirmedOrder_fields)
  have run: "cancelOrder confirmedOrder ''changed mind'' None (Some 20) (stampOf 7) (stampOf 8)
       = (None, confirmedOrder\<lparr>status := CANCELLED,
            OrderAggregate.version := OrderAggregate.version confirmedOrder + 2,
            uncommittedEvents := uncommittedEvents confirmedOrder @
              [createEvent (OrderAggregate.id' confirmedOrder) ''Order''
                 (OrderCancelledData (OrderAggregate.id' confirmedOrder) ''changed mind'' None
                    (Some 20))
                 (OrderAggregate.version confirmedOrder + 1) (stampOf 7),
               createEvent (OrderAggregate.id' confirmedOrder) ''Order''
                 (OrderStatusUpdatedData (OrderAggregate.id' confirmedOrder)
                    (status confirmedOrder) CANCELLED None)
                 (OrderAggregate.version confirmedOrder + 2) (stampOf 8)]\<rparr>)"
    using c by (simp add: confirmedOrder_fields)
  show ?thesis
    unfolding svc run by (simp add: confirmedOrder_fields createEvent_def)
qed

text \<open>
  C8, evaluated on the code. The sample order is SHIPPED, of version 6, with six events
  in its buffer. The guard of \<open>cancelOrder\<close> rejects DELIVERED and CANCELLED only, so
  the shipped order passes it and the OrderCancelled event is applied: the version
  becomes 7 and the event is the seventh of the buffer. The cascaded \<open>updateStatus\<close>
  then rejects the change from SHIPPED to CANCELLED, which the transition table does not
  hold: the command throws, the order is still SHIPPED, and it never reaches CANCELLED.
\<close>

theorem cancelOrder_shipped_throws:
  "status shippedOrder = SHIPPED \<and> OrderAggregate.version shippedOrder = 6
   \<and> length (uncommittedEvents shippedOrder) = 6
   \<and> fst (OrderService_cancelOrder shippedOrder ''changed mind'' None (stampOf 7) (stampOf 8))
       = Some (Error ''Invalid status transition from shipped to cancelled'')
   \<and> status (snd (OrderService_cancelOrder shippedOrder ''changed mind'' None
                    (stampOf 7) (stampOf 8))) = SHIPPED
   \<and> OrderAggregate.version
        (snd (OrderService_cancelOrder shippedOrder ''changed mind'' None
                (stampOf 7) (stampOf 8))) = 7
   \<and> map data (drop 6 (uncommittedEvents
           (snd (OrderService_cancelOrder shippedOrder ''changed mind'' None
                   (stampOf 7) (stampOf 8)))))
       = [OrderCancelledData ''agg-1'' ''changed mind'' None None]"
  by (simp add: OrderService_cancelOrder_def shippedOrder_def sampleCommands_def order_defs
        item0_def)

subsection \<open>Replaying the events of an order\<close>

lemma applyEvent_cases:
  "applyEvent a e = (r, a') \<Longrightarrow>
     (r = None \<and> uncommittedEvents a' = uncommittedEvents a @ [e]
        \<and> OrderAggregate.id' a' = OrderAggregate.id' a)
   \<or> (r \<noteq> None \<and> a' = a)"
  by (auto simp add: applyEvent_def split: EventData.splits)

lemma applyEvents_snoc:
  "applyEvents a (es @ [e]) =
     (case applyEvents a es of
        (Some err, a1) \<Rightarrow> (Some err, a1)
      | (None, a1) \<Rightarrow> applyEvent a1 e)"
  by (induction es arbitrary: a) (auto split: prod.splits option.splits)

lemma replayable_new: "replayable (new_OrderAggregate idopt uuid)"
  by (simp add: replayable_def new_OrderAggregate_def split: option.splits)

lemma replayable_applyEvent:
  assumes "replayable a" and "applyEvent a e = (r, a')"
  shows "replayable a'"
proof -
  from applyEvent_cases [OF assms(2)] show ?thesis
  proof
    assume "r = None \<and> uncommittedEvents a' = uncommittedEvents a @ [e]
        \<and> OrderAggregate.id' a' = OrderAggregate.id' a"
    with assms show ?thesis
      by (simp add: replayable_def applyEvents_snoc)
  next
    assume "r \<noteq> None \<and> a' = a"
    with assms(1) show ?thesis by simp
  qed
qed

lemma replayable_updateStatus:
  "replayable a \<Longrightarrow> updateStatus a s ub st = (r, a') \<Longrightarrow> replayable a'"
  by (auto simp add: updateStatus_def split: if_splits dest: replayable_applyEvent)

lemma replayable_createOrder:
  "replayable a \<Longrightarrow> createOrder a uid its addr pm st = (r, a') \<Longrightarrow> replayable a'"
  by (auto simp add: createOrder_def split: if_splits dest: replayable_applyEvent)

lemma replayable_processPayment:
  "replayable a \<Longrightarrow> processPayment a ps txn gw st st2 = (r, a') \<Longrightarrow> replayable a'"
  by (auto simp add: processPayment_def split: if_splits prod.splits option.splits
        dest: replayable_applyEvent replayable_updateStatus)

lemma replayable_shipOrder:
  "replayable a \<Longrightarrow> shipOrder a tr ca eta shippedAt st st2 = (r, a') \<Longrightarrow> replayable a'"
  by (auto simp add: shipOrder_def split: if_splits prod.splits option.splits
        dest: replayable_applyEvent replayable_updateStatus)

lemma replayable_cancelOrder:
  "replayable a \<Longrightarrow> cancelOrder a re cb refund st st2 = (r, a') \<Longrightarrow> replayable a'"
  by (auto simp add: cancelOrder_def split: if_splits prod.splits option.splits
        dest: replayable_applyEvent replayable_updateStatus)

lemma replayable_exec: "replayable a \<Longrightarrow> exec a c = (r, a') \<Longrightarrow> replayable a'"
  by (cases c) (auto dest: replayable_createOrder replayable_updateStatus
      replayable_processPayment replayable_shipOrder replayable_cancelOrder)

lemma replayable_run: "replayable a \<Longrightarrow> run_commands a cs = (r, a') \<Longrightarrow> replayable a'"
proof (induction cs arbitrary: a)
  case Nil
  then show ?case by simp
next
  case (Cons c cs)
  obtain r1 a1 where e: "exec a c = (r1, a1)" by (cases "exec a c")
  with Cons.prems(1) have "replayable a1" by (rule replayable_exec)
  with Cons e show ?case by (cases r1) auto
qed

text \<open>The event reducer never reads the id of the aggregate.\<close>

lemma applyEvent_id:
  "applyEvent (a\<lparr>OrderAggregate.id' := j\<rparr>) e =
     (case applyEvent a e of (r, a1) \<Rightarrow> (r, a1\<lparr>OrderAggregate.id' := j\<rparr>))"
  by (simp add: applyEvent_def split: EventData.splits)

lemma applyEvents_id:
  "applyEvents (a\<lparr>OrderAggregate.id' := j\<rparr>) es =
     (case applyEvents a es of (r, a1) \<Rightarrow> (r, a1\<lparr>OrderAggregate.id' := j\<rparr>))"
proof (induction es arbitrary: a)
  case Nil
  then show ?case by simp
next
  case (Cons e es)
  obtain r1 a1 where e: "applyEvent a e = (r1, a1)" by (cases "applyEvent a e")
  show ?case
    by (cases r1) (simp_all add: applyEvent_id e Cons.IH split: prod.splits)
qed

lemma new_OrderAggregate_id:
  "new_OrderAggregate idopt uuid =
     (new_OrderAggregate None k)
       \<lparr>OrderAggregate.id' := OrderAggregate.id' (new_OrderAggregate idopt uuid)\<rparr>"
  by (simp add: new_OrderAggregate_def)

lemma replayable_fromEvents:
  assumes "replayable a" and "uncommittedEvents a \<noteq> []"
  shows "\<exists>j. fromEvents (uncommittedEvents a) uuid
           = Inr (a\<lparr>OrderAggregate.id' := j, uncommittedEvents := []\<rparr>)"
proof -
  obtain e es where buf: "uncommittedEvents a = e # es"
    using assms(2) by (cases "uncommittedEvents a") auto
  let ?j = "OrderAggregate.id' (new_OrderAggregate (Some (aggregateId e)) uuid)"
  have "applyEvents (new_OrderAggregate (Some (aggregateId e)) uuid) (uncommittedEvents a)
          = (None, a\<lparr>OrderAggregate.id' := ?j\<rparr>)"
    using assms(1)
    by (subst new_OrderAggregate_id [where k = "OrderAggregate.id' a"])
       (simp add: applyEvents_id replayable_def)
  then have "fromEvents (e # es) uuid
          = Inr (a\<lparr>OrderAggregate.id' := ?j, uncommittedEvents := []\<rparr>)"
    by (simp add: fromEvents_def buf)
  then show ?thesis by (auto simp add: buf)
qed

text \<open>Commands only ever append to the buffer of uncommitted events.\<close>

lemma updateStatus_buffer:
  "updateStatus a s ub st = (r, a') \<Longrightarrow> \<exists>es. uncommittedEvents a' = uncommittedEvents a @ es"
  by (auto simp add: updateStatus_def split: if_splits dest!: applyEvent_cases)

lemma exec_buffer:
  "exec a c = (r, a') \<Longrightarrow> \<exists>es. uncommittedEvents a' = uncommittedEvents a @ es"
  by (cases c)
     (auto simp add: createOrder_def processPayment_def shipOrder_def cancelOrder_def
        split: if_splits prod.splits option.splits
        dest!: applyEvent_cases updateStatus_buffer)

lemma run_buffer:
  "run_commands a cs = (r, a') \<Longrightarrow> \<exists>es. uncommittedEvents a' = uncommittedEvents a @ es"
proof (induction cs arbitrary: a)
  case Nil
  then show ?case by simp
next
  case (Cons c cs)
  obtain r1 a1 where e: "exec a c = (r1, a1)" by (cases "exec a c")
  from exec_buffer [OF e] obtain es1
    where b1: "uncommittedEvents a1 = uncommittedEvents a @ es1" ..
  show ?case
  proof (cases r1)
    case None
    with Cons.prems e have "run_commands a1 cs = (r, a')" by simp
    from Cons.IH [OF this] b1 show ?thesis by auto
  next
    case (Some err)
    with Cons.prems e b1 show ?thesis by auto
  qed
qed

lemma exec_first:
  assumes "OrderAggregate.version a = 0" and "exec a c = (None, a')"
  shows "uncommittedEvents a' \<noteq> []"
  using assms
  by (cases c)
     (auto simp add: createOrder_def updateStatus_def processPayment_def shipOrder_def
        cancelOrder_def split: if_splits dest!: applyEvent_cases)

text \<open>
  Commands never read the buffer: with another buffer they append the same events.
\<close>

lemma exec_rebuffer:
  "exec (a\<lparr>uncommittedEvents := es\<rparr>) c =
     (case exec a c of (r, a') \<Rightarrow>
        (r, a'\<lparr>uncommittedEvents := es @ drop (length (uncommittedEvents a)) (uncommittedEvents a')\<rparr>))"
  by (cases c) (simp_all add: createOrder_def updateStatus_def processPayment_def shipOrder_def
      cancelOrder_def applyEvent_def createEvent_def)

lemma run_rebuffer:
  "run_commands (a\<lparr>uncommittedEvents := es\<rparr>) cs =
     (case run_commands a cs of (r, a') \<Rightarrow>
        (r, a'\<lparr>uncommittedEvents := es @ drop (length (uncommittedEvents a)) (uncommittedEvents a')\<rparr>))"
proof (induction cs arbitrary: a es)
  case Nil
  show ?case by simp
next
  case (Cons c cs)
  obtain r1 a1 where e: "exec a c = (r1, a1)" by (cases "exec a c")
  from exec_buffer [OF e] obtain n1 where b1: "uncommittedEvents a1 = uncommittedEvents a @ n1" ..
  show ?case
  proof (cases r1)
    case (Some err)
    with e show ?thesis by (simp add: exec_rebuffer)
  next
    case None
    obtain r2 a2 where r: "run_commands a1 cs = (r2, a2)" by (cases "run_commands a1 cs")
    from run_buffer [OF r] obtain n2 where b2: "uncommittedEvents a2 = uncommittedEvents a1 @ n2" ..
    from Cons.IH [where a = a1 and es = "es @ n1"] e None r b1 b2 show ?thesis
      by (simp add: exec_rebuffer)
  qed
qed


lemma applyEvents_buffer:
  "applyEvents a es = (None, a') \<Longrightarrow>
     uncommittedEvents a' = uncommittedEvents a @ es
     \<and> OrderAggregate.id' a' = OrderAggregate.id' a"
proof (induction es arbitrary: a)
  case Nil
  then show ?case by simp
next
  case (Cons e es)
  obtain r1 a1 where e: "applyEvent a e = (r1, a1)" by (cases "applyEvent a e")
  with Cons.prems have r1: "r1 = None" and rest: "applyEvents a1 es = (None, a')"
    by (cases r1; simp)+
  from applyEvent_cases [OF e] r1
  have "uncommittedEvents a1 = uncommittedEvents a @ [e]"
    and "OrderAggregate.id' a1 = OrderAggregate.id' a" by simp_all
  with Cons.IH [OF rest] show ?case by simp
qed

lemma new_OrderAggregate_same:
  "new_OrderAggregate None (OrderAggregate.id' (new_OrderAggregate idopt uuid))
     = new_OrderAggregate idopt uuid"
  by (simp add: new_OrderAggregate_def)

lemma fromEvents_replayable:
  assumes "fromEvents hist uuid = Inr a0"
  shows "\<exists>b0. replayable b0 \<and> uncommittedEvents b0 = hist \<and> hist \<noteq> []
              \<and> a0 = b0\<lparr>uncommittedEvents := []\<rparr>"
proof -
  from assms obtain e es where h: "hist = e # es"
    by (cases hist) (simp_all add: fromEvents_def)
  let ?n = "new_OrderAggregate (Some (aggregateId e)) uuid"
  obtain r b0 where ap: "applyEvents ?n hist = (r, b0)" by (cases "applyEvents ?n hist")
  with assms h have r: "r = None" and a0: "a0 = b0\<lparr>uncommittedEvents := []\<rparr>"
    by (cases r; simp add: fromEvents_def)+
  from applyEvents_buffer [OF ap [unfolded r]]
  have buf: "uncommittedEvents b0 = hist" and idb: "OrderAggregate.id' b0 = OrderAggregate.id' ?n"
    by (simp_all add: new_OrderAggregate_def)
  have "replayable b0"
    using ap r by (simp add: replayable_def buf idb new_OrderAggregate_same)
  moreover have "hist \<noteq> []" using h by simp
  ultimately show ?thesis using buf a0 by (intro exI [of _ b0]) simp
qed

text \<open>
  C2. The live aggregate is a new aggregate, or one that \<open>fromEvents\<close> has rehydrated
  from the events \<open>hist\<close> of the store. Let a sequence of commands run on it without
  error, with no commit in between, so that its buffer holds every event the commands
  emitted, and let there be at least one event. Then \<open>fromEvents\<close> on the full list of
  events, those of the store followed by those the commands emitted, returns an
  aggregate with the same status, total amount, items and version as the live one, and
  with an empty buffer.
\<close>

theorem replay_deterministic:
  assumes live: "(hist = [] \<and> a0 = new_OrderAggregate idopt uuid)
                 \<or> fromEvents hist uuid = Inr a0"
      and run: "run_commands a0 cmds = (None, a)"
      and ne: "hist \<noteq> [] \<or> cmds \<noteq> []"
  shows "\<exists>r. fromEvents (hist @ uncommittedEvents a) uuid' = Inr r
           \<and> status r = status a \<and> totalAmount r = totalAmount a \<and> items r = items a
           \<and> OrderAggregate.version r = OrderAggregate.version a
           \<and> uncommittedEvents r = []"
  using live
proof
  assume fresh: "hist = [] \<and> a0 = new_OrderAggregate idopt uuid"
  with run have run': "run_commands (new_OrderAggregate idopt uuid) cmds = (None, a)" by simp
  have rep: "replayable a"
    using replayable_new run' by (rule replayable_run)
  from fresh ne obtain c cs where cmds: "cmds = c # cs" by (cases cmds) auto
  obtain r1 a1 where e: "exec (new_OrderAggregate idopt uuid) c = (r1, a1)"
    by (cases "exec (new_OrderAggregate idopt uuid) c")
  have r1: "r1 = None" and rest: "run_commands a1 cs = (None, a)"
    using run' e by (cases r1; simp add: cmds)+
  have v0: "OrderAggregate.version (new_OrderAggregate idopt uuid) = 0"
    by (simp add: new_OrderAggregate_def)
  have "uncommittedEvents a1 \<noteq> []"
    using v0 e [unfolded r1] by (rule exec_first)
  moreover from run_buffer [OF rest] obtain es
    where "uncommittedEvents a = uncommittedEvents a1 @ es" ..
  ultimately have "uncommittedEvents a \<noteq> []" by simp
  from replayable_fromEvents [OF rep this, of uuid'] fresh show ?thesis by auto
next
  assume "fromEvents hist uuid = Inr a0"
  from fromEvents_replayable [OF this] obtain b0
    where rep0: "replayable b0" and buf0: "uncommittedEvents b0 = hist" and hne: "hist \<noteq> []"
      and a0: "a0 = b0\<lparr>uncommittedEvents := []\<rparr>" by blast
  obtain r b where rb: "run_commands b0 cmds = (r, b)" by (cases "run_commands b0 cmds")
  from run_buffer [OF rb] buf0 obtain n where bufb: "uncommittedEvents b = hist @ n" by auto
  from run [unfolded a0 run_rebuffer] rb buf0 bufb
  have r: "r = None" and a: "a = b\<lparr>uncommittedEvents := n\<rparr>" by simp_all
  have repb: "replayable b" using rep0 rb by (rule replayable_run)
  have "uncommittedEvents b \<noteq> []" using bufb hne by simp
  from replayable_fromEvents [OF repb this, of uuid'] bufb a show ?thesis by auto
qed

text \<open>
  The witness runs the sample commands on a new aggregate; then it rehydrates the
  confirmed order from its events, moves it to PROCESSING and replays all four events.
\<close>

theorem replay_deterministic_witness:
  "fst (run_commands (new_OrderAggregate None ''agg-1'') sampleCommands) = None
   \<and> sampleCommands \<noteq> []
   \<and> (\<exists>r. fromEvents (uncommittedEvents shippedOrder) ''uuid-2'' = Inr r
           \<and> status r = SHIPPED \<and> totalAmount r = 20 \<and> items r = [item0]
           \<and> OrderAggregate.version r = 6
           \<and> uncommittedEvents r = [])
   \<and> fromEvents (uncommittedEvents confirmedOrder) ''uuid-2''
       = Inr (markEventsAsCommitted confirmedOrder)
   \<and> fst (run_commands (markEventsAsCommitted confirmedOrder)
            [UpdateStatus PROCESSING None (stampOf 4)]) = None
   \<and> (\<exists>r. fromEvents
             (uncommittedEvents confirmedOrder
                @ uncommittedEvents
                    (snd (run_commands (markEventsAsCommitted confirmedOrder)
                            [UpdateStatus PROCESSING None (stampOf 4)])))
             ''uuid-3'' = Inr r
           \<and> status r = PROCESSING \<and> totalAmount r = 20 \<and> items r = [item0]
           \<and> OrderAggregate.version r = 4
           \<and> uncommittedEvents r = [])"
proof -
  have run: "run_commands (new_OrderAggregate None ''agg-1'') sampleCommands
               = (None, shippedOrder)"
    by (rule prod_eqI) (simp_all add: sampleCommands_run shippedOrder_def)
  have ne: "sampleCommands \<noteq> []" by (simp add: sampleCommands_def)
  have live: "([] = [] \<and> new_OrderAggregate None ''agg-1'' = new_OrderAggregate None ''agg-1'')
       \<or> fromEvents [] ''agg-1'' = Inr (new_OrderAggregate None ''agg-1'')"
    by simp
  from replay_deterministic [OF live run, of "''uuid-2''"] ne obtain r where
    "fromEvents (uncommittedEvents shippedOrder) ''uuid-2'' = Inr r
       \<and> status r = status shippedOrder \<and> totalAmount r = totalAmount shippedOrder
       \<and> items r = items shippedOrder
       \<and> OrderAggregate.version r = OrderAggregate.version shippedOrder
       \<and> uncommittedEvents r = []" by auto
  with shippedOrder_fields
  have first: "\<exists>r. fromEvents (uncommittedEvents shippedOrder) ''uuid-2'' = Inr r
           \<and> status r = SHIPPED \<and> totalAmount r = 20 \<and> items r = [item0]
           \<and> OrderAggregate.version r = 6
           \<and> uncommittedEvents r = []" by auto
  let ?loaded = "markEventsAsCommitted confirmedOrder"
  let ?cmds = "[UpdateStatus PROCESSING None (stampOf 4)]"
  let ?after = "snd (run_commands ?loaded ?cmds)"
  have load: "fromEvents (uncommittedEvents confirmedOrder) ''uuid-2'' = Inr ?loaded"
    by code_simp
  have ok2: "fst (run_commands ?loaded ?cmds) = None"
    and vals: "status ?after = PROCESSING \<and> totalAmount ?after = 20 \<and> items ?after = [item0]
               \<and> OrderAggregate.version ?after = 4"
    by (simp_all add: markEventsAsCommitted_def confirmedOrder_def sampleCommands_def
          order_defs item0_def)
  have run2: "run_commands ?loaded ?cmds = (None, ?after)"
    by (metis ok2 prod.collapse)
  from replay_deterministic [OF disjI2 [OF load] run2, of "''uuid-3''"] obtain r where
    "fromEvents (uncommittedEvents confirmedOrder @ uncommittedEvents ?after) ''uuid-3'' = Inr r
       \<and> status r = status ?after \<and> totalAmount r = totalAmount ?after \<and> items r = items ?after
       \<and> OrderAggregate.version r = OrderAggregate.version ?after
       \<and> uncommittedEvents r = []" by auto
  with vals
  have second: "\<exists>r. fromEvents (uncommittedEvents confirmedOrder @ uncommittedEvents ?after)
                       ''uuid-3'' = Inr r
           \<and> status r = PROCESSING \<and> totalAmount r = 20 \<and> items r = [item0]
           \<and> OrderAggregate.version r = 4
           \<and> uncommittedEvents r = []" by auto
  from sampleCommands_run ne first load ok2 second show ?thesis by blast
qed

section \<open>Properties of the inventory\<close>

lemmas stock_defs = reserve_def removeStock_def adjust_def save_def writeDocument_def
  validateSchema_def quantitiesModified_def availableQuantity_def isInteger_def movement_def
  set_quantity_def set_reservedQuantity_def set_lastUpdated_def push_movement_def saved_def
  hydrate_def
  findByProductId_def Let_def





















text \<open>
  C3, evaluated on the code. The stock holds 10 units of \<open>p1\<close>, none reserved, and the
  OrderCreated event of order \<open>o1\<close> asks for 2 units. Handling the event once reserves
  2 units. Handling the same event a second time returns as well and reserves 2 more:
  \<open>reserveStock\<close> never looks for an earlier RESERVED movement of the same reference.
\<close>

theorem OrderCreated_redelivery_reserves_twice:
  "fst (OrderCreatedHandler_handle stock0 orderCreated0 5) = None
   \<and> map_option reservedQuantity
        (snd (OrderCreatedHandler_handle stock0 orderCreated0 5) ''p1'') = Some 2
   \<and> fst (OrderCreatedHandler_handle
             (snd (OrderCreatedHandler_handle stock0 orderCreated0 5)) orderCreated0 6) = None
   \<and> map_option reservedQuantity
        (snd (OrderCreatedHandler_handle
                (snd (OrderCreatedHandler_handle stock0 orderCreated0 5)) orderCreated0 6)
           ''p1'') = Some 4
   \<and> map_option (map Movement.reference \<circ> movements)
        (snd (OrderCreatedHandler_handle
                (snd (OrderCreatedHandler_handle stock0 orderCreated0 5)) orderCreated0 6)
           ''p1'') = Some [Some ''o1'', Some ''o1'']"
  by (simp add: OrderCreatedHandler_handle_def reserveStock_def stock_defs stock0_def
        record0_def orderCreated0_def createEvent_def item0_def)

section \<open>Properties of the retry handler\<close>

lemmas retry_defs = RetryHandler_execute_def retryLoop.simps nextDelay_def calculateDelay_def
  afterLoop_def sleep_def defaultRetryOptions_def nonRetryableErrors_def failingWith_def
  world0_def Let_def

text \<open>
  C6, evaluated on the code. Under \<open>defaultRetryOptions\<close> a call that always throws a
  ConflictError is made three times, with two sleeps in between, before the error is
  thrown on: the name ConflictError is not in the list of errors that are not retried.
  A call that throws a ValidationError is made once. A handler built with no options
  at all retries every error, a ValidationError too.
\<close>

theorem defaultRetry_retries_ConflictError:
  "retryCondition defaultRetryOptions (ConflictError ''Resource conflict'')
   \<and> RetryHandler_execute defaultRetryOptions
        (failingWith (ConflictError ''Resource conflict'')) world0
       = (Inl (ConflictError ''Resource conflict''),
          world0\<lparr>clock := 1500, drawn := 2, sleeps := [500, 1000], ext := 3\<rparr>)
   \<and> RetryHandler_execute defaultRetryOptions
        (failingWith (ValidationError ''Validation failed'')) world0
       = (Inl (ValidationError ''Validation failed''), world0\<lparr>ext := 1\<rparr>)
   \<and> RetryHandler_execute (new_RetryHandler None None None None None None)
        (failingWith (ValidationError ''Validation failed'')) world0
       = (Inl (ValidationError ''Validation failed''),
          world0\<lparr>clock := 1500, drawn := 2, sleeps := [500, 1000], ext := 3\<rparr>)"
  by (simp add: retry_defs new_RetryHandler_def orDefault_def orDefaultNumber_def)












section \<open>Properties of the circuit breaker\<close>

lemma inv_new:
  "0 < orDefault t 5 \<Longrightarrow> breaker_inv (new_CircuitBreaker nm t rt mp ee)"
  by (simp add: breaker_inv_def new_CircuitBreaker_def)

lemma inv_onSuccess:
  "0 < failureThreshold (options b) \<Longrightarrow> state b \<noteq> OPEN \<Longrightarrow> breaker_inv (onSuccess b)"
  by (cases "state b") (simp_all add: breaker_inv_def onSuccess_def Let_def)

lemma inv_onFailure:
  "breaker_inv b \<or> (breaker_inv (b\<lparr>state := OPEN\<rparr>) \<and> state b = HALF_OPEN)
     \<Longrightarrow> breaker_inv (onFailure b e now)"
  by (cases "state b") (auto simp add: breaker_inv_def onFailure_def Let_def isExpectedError_def)

lemma inv_attempt:
  assumes "breaker_inv b \<or> (breaker_inv (b\<lparr>state := OPEN\<rparr>) \<and> state b = HALF_OPEN)"
      and "state b \<noteq> OPEN"
  shows "breaker_inv (fst (snd (attemptCall b fn w)))"
proof -
  have thr: "0 < failureThreshold (options b)"
    using assms(1) by (auto simp add: breaker_inv_def)
  show ?thesis
    using assms thr
    by (auto simp add: attemptCall_def split: prod.splits sum.splits
          intro: inv_onSuccess inv_onFailure)
qed

lemma inv_execute:
  assumes "breaker_inv b"
  shows "breaker_inv (fst (snd (CircuitBreaker_execute b fn w)))"
proof (cases "state b = OPEN")
  case False
  with assms show ?thesis by (simp add: CircuitBreaker_execute_def inv_attempt)
next
  case True
  show ?thesis
  proof (cases "shouldAttemptReset b w")
    case False
    with True assms show ?thesis by (simp add: CircuitBreaker_execute_def)
  next
    case due: True
    have "b\<lparr>state := HALF_OPEN, state := OPEN\<rparr> = b" using True by simp
    with assms
    have "breaker_inv ((b\<lparr>state := HALF_OPEN\<rparr>)\<lparr>state := OPEN\<rparr>)
            \<and> state (b\<lparr>state := HALF_OPEN\<rparr>) = HALF_OPEN"
      by simp
    then have "breaker_inv (fst (snd (attemptCall (b\<lparr>state := HALF_OPEN\<rparr>) fn w)))"
      by (intro inv_attempt) simp_all
    with True due show ?thesis by (simp add: CircuitBreaker_execute_def)
  qed
qed

lemma inv_reset: "0 < failureThreshold (options b) \<Longrightarrow> breaker_inv (reset b)"
  by (simp add: breaker_inv_def reset_def)

text \<open>A call on a CLOSED breaker: the call is made and the failure count kept.\<close>

lemma closed_step:
  assumes inv: "breaker_inv b" and c: "state b = CLOSED"
  shows "case CircuitBreaker_execute b fn w of (res, b', w') \<Rightarrow>
           res = fst (fn w) \<and> w' = snd (fn w)
           \<and> (case fst (fn w) of
                 Inr v \<Rightarrow> b' = b\<lparr>failureCount := 0, lastFailureTime := None\<rparr>
               | Inl e \<Rightarrow>
                   if isExpectedError b e then b' = b
                   else failureCount b' = failureCount b + 1
                      \<and> (state b' = OPEN \<longleftrightarrow> failureCount b + 1 = failureThreshold (options b))
                      \<and> (state b' = CLOSED \<longleftrightarrow> failureCount b + 1 < failureThreshold (options b))
                      \<and> (state b' = OPEN \<longrightarrow>
                            nextAttempt b' = Some (clock w' + resetTimeout (options b))))"
  using assms
  by (auto simp add: CircuitBreaker_execute_def attemptCall_def onSuccess_def onFailure_def
        Let_def breaker_inv_def split: prod.splits sum.splits)

text \<open>A call on an OPEN breaker whose timeout has elapsed, or on a HALF_OPEN breaker.\<close>

lemma trial_step:
  assumes inv: "breaker_inv b"
      and t: "(state b = OPEN \<and> nextAttempt b = Some t \<and> t \<le> clock w) \<or> state b = HALF_OPEN"
  shows "case CircuitBreaker_execute b fn w of (res, b', w') \<Rightarrow>
           res = fst (fn w) \<and> w' = snd (fn w)
           \<and> (case fst (fn w) of
                 Inr v \<Rightarrow> state b' = CLOSED \<and> failureCount b' = 0
               | Inl e \<Rightarrow>
                   if isExpectedError b e then state b' = HALF_OPEN
                   else state b' = OPEN
                      \<and> nextAttempt b' = Some (clock w' + resetTimeout (options b)))"
  using assms
  by (auto simp add: CircuitBreaker_execute_def attemptCall_def onSuccess_def onFailure_def
        Let_def breaker_inv_def shouldAttemptReset_def isExpectedError_def
        split: prod.splits sum.splits)

lemma open_step:
  assumes "state b = OPEN" "nextAttempt b = Some t" "clock w < t"
  shows "CircuitBreaker_execute b fn w = (Inl (openError b), b, w)"
  using assms
  by (simp add: CircuitBreaker_execute_def shouldAttemptReset_def openError_def)

lemma run_calls_snoc:
  "run_calls b (rs @ [r]) w
     = fst (snd (CircuitBreaker_execute (run_calls b rs w) (returning r) w))"
  by (simp add: run_calls_def)

lemma streak_snoc:
  "streak b (rs @ [r]) =
     (case r of Inr v \<Rightarrow> 0
              | Inl e \<Rightarrow> if isExpectedError b e then streak b rs else streak b rs + 1)"
  by (cases r) (simp_all add: streak_def)

lemma options_execute:
  "options (fst (snd (CircuitBreaker_execute b fn w))) = options b"
  by (auto simp add: CircuitBreaker_execute_def attemptCall_def onSuccess_def onFailure_def
        Let_def split: prod.splits sum.splits)

lemma options_run: "options (run_calls b rs w) = options b"
proof (induction rs rule: rev_induct)
  case Nil
  show ?case by (simp add: run_calls_def)
next
  case (snoc r rs)
  then show ?case by (simp add: run_calls_snoc options_execute)
qed

lemma inv_run: "breaker_inv b \<Longrightarrow> breaker_inv (run_calls b rs w)"
proof (induction rs rule: rev_induct)
  case Nil
  then show ?case by (simp add: run_calls_def)
next
  case (snoc r rs)
  then show ?case by (simp add: run_calls_snoc inv_execute)
qed

lemma isExpectedError_options:
  "options b' = options b \<Longrightarrow> isExpectedError b' e = isExpectedError b e"
  by (simp add: isExpectedError_def)

text \<open>
  From a CLOSED breaker with no failure counted, as long as the streak has stayed below
  the threshold before the last call: the failure count is the streak, and the breaker
  is OPEN exactly when the streak has reached the threshold.
\<close>

lemma first_opening:
  assumes inv: "breaker_inv b" and c: "state b = CLOSED" and z: "failureCount b = 0"
      and below: "\<forall>n<length rs. streak b (take n rs) < failureThreshold (options b)"
  shows "failureCount (run_calls b rs w) = streak b rs
       \<and> (state (run_calls b rs w) = OPEN \<longleftrightarrow> streak b rs = failureThreshold (options b))
       \<and> (state (run_calls b rs w) = CLOSED \<longleftrightarrow> streak b rs < failureThreshold (options b))"
  using below
proof (induction rs rule: rev_induct)
  case Nil
  from inv c z show ?case by (simp add: run_calls_def streak_def breaker_inv_def)
next
  case (snoc r rs)
  let ?b = "run_calls b rs w"
  have pre: "\<forall>n<length rs. streak b (take n rs) < failureThreshold (options b)"
  proof (intro allI impI)
    fix n assume n: "n < length rs"
    with snoc.prems have "streak b (take n (rs @ [r])) < failureThreshold (options b)"
      by simp
    with n show "streak b (take n rs) < failureThreshold (options b)" by simp
  qed
  have last: "streak b rs < failureThreshold (options b)"
    using snoc.prems [rule_format, of "length rs"] by simp
  from snoc.IH [OF pre] last
  have cnt: "failureCount ?b = streak b rs" and cl: "state ?b = CLOSED" by simp_all
  have invb: "breaker_inv ?b" using inv by (rule inv_run)
  have opt: "options ?b = options b" by (rule options_run)
  from closed_step [OF invb cl, of "returning r" w] cnt opt cl last inv
  show ?case
    by (cases r)
       (auto simp add: run_calls_snoc streak_snoc returning_def
          isExpectedError_options [OF opt] breaker_inv_def
          split: prod.splits)
qed

lemmas breaker_defs = CircuitBreaker_execute_def attemptCall_def onSuccess_def onFailure_def
  isExpectedError_def shouldAttemptReset_def new_CircuitBreaker_def orDefault_def
  defaultCircuitBreakerOptions_def defaultBreaker_def openBreaker_def run_calls_def
  returning_def refused_def failingWith_def world0_def openError_def Let_def

lemma defaultBreaker_inv: "breaker_inv defaultBreaker"
  unfolding defaultBreaker_def
  by (rule inv_new) (simp add: orDefault_def defaultCircuitBreakerOptions_def)

lemma openBreaker_inv: "breaker_inv openBreaker"
  unfolding openBreaker_def using defaultBreaker_inv by (rule inv_run)

lemma openBreaker_fields:
  "state openBreaker = OPEN \<and> nextAttempt openBreaker = Some 30000
   \<and> failureCount openBreaker = 5 \<and> name openBreaker = ''product-service''"
  by (simp add: breaker_defs)

text \<open>
  C5, as the claim states it: the trial call of a HALF_OPEN breaker closes the breaker
  or reopens it, so that one trial is permitted. The breaker with the default options,
  opened at time 0 by five refused connections, lets a call through at time 30000. The
  call throws a ValidationError, which is an expected error: the breaker stays
  HALF_OPEN, and the next call is let through as well.
\<close>

theorem halfOpen_expected_failure_counterexample:
  "state openBreaker = OPEN \<and> nextAttempt openBreaker = Some 30000
   \<and> state (fst (snd (CircuitBreaker_execute openBreaker
                         (failingWith (ValidationError ''Validation failed''))
                         (world0\<lparr>clock := 30000\<rparr>)))) = HALF_OPEN
   \<and> ext (snd (snd (CircuitBreaker_execute
                       (fst (snd (CircuitBreaker_execute openBreaker
                                    (failingWith (ValidationError ''Validation failed''))
                                    (world0\<lparr>clock := 30000\<rparr>))))
                       (failingWith (ValidationError ''Validation failed''))
                       (snd (snd (CircuitBreaker_execute openBreaker
                                    (failingWith (ValidationError ''Validation failed''))
                                    (world0\<lparr>clock := 30000\<rparr>))))))) = 2"
  by (simp add: breaker_defs)

text \<open>
  C5, amended. For a circuit breaker with a positive threshold, in the invariant that a
  new breaker satisfies and every call preserves:
  \<^item> from CLOSED with no failure counted, as long as the streak of failures with
    errors that are not expected has stayed below the threshold, the failure count is
    that streak and the breaker is OPEN exactly when the streak has reached the threshold;
  \<^item> while OPEN and before the time of the next attempt, \<open>execute\<close> throws the
    circuit-open error whatever the wrapped call is, and leaves the world and the
    breaker as they were: the call is not made;
  \<^item> when OPEN at or after that time, or HALF_OPEN, the call is made: its success
    closes the breaker, its failure with an error that is not expected reopens it for
    another timeout, and its failure with an expected error leaves it HALF_OPEN.
\<close>

theorem circuit_breaker_behaviour:
  assumes inv: "breaker_inv b"
  shows "breaker_inv (fst (snd (CircuitBreaker_execute b fn w)))
       \<and> (state b = CLOSED \<and> failureCount b = 0
            \<and> (\<forall>n<length rs. streak b (take n rs) < failureThreshold (options b)) \<longrightarrow>
              failureCount (run_calls b rs w) = streak b rs
              \<and> (state (run_calls b rs w) = OPEN
                    \<longleftrightarrow> streak b rs = failureThreshold (options b))
              \<and> (state (run_calls b rs w) = CLOSED
                    \<longleftrightarrow> streak b rs < failureThreshold (options b)))
       \<and> (state b = OPEN \<and> nextAttempt b = Some t \<and> clock w < t \<longrightarrow>
              CircuitBreaker_execute b fn w = (Inl (openError b), b, w))
       \<and> ((state b = OPEN \<and> nextAttempt b = Some t \<and> t \<le> clock w) \<or> state b = HALF_OPEN \<longrightarrow>
              (case CircuitBreaker_execute b fn w of (res, b', w') \<Rightarrow>
                 res = fst (fn w) \<and> w' = snd (fn w)
                 \<and> (case fst (fn w) of
                       Inr v \<Rightarrow> state b' = CLOSED \<and> failureCount b' = 0
                     | Inl e \<Rightarrow>
                         if isExpectedError b e then state b' = HALF_OPEN
                         else state b' = OPEN
                            \<and> nextAttempt b' = Some (clock w' + resetTimeout (options b)))))"
proof (intro conjI impI)
  show "breaker_inv (fst (snd (CircuitBreaker_execute b fn w)))"
    using inv by (rule inv_execute)
next
  assume h: "state b = CLOSED \<and> failureCount b = 0
     \<and> (\<forall>n<length rs. streak b (take n rs) < failureThreshold (options b))"
  then have c: "state b = CLOSED" and z: "failureCount b = 0"
    and below: "\<forall>n<length rs. streak b (take n rs) < failureThreshold (options b)"
    by simp_all
  note fo = first_opening [OF inv c z below, of w]
  from fo show "failureCount (run_calls b rs w) = streak b rs" by simp
  from fo show "state (run_calls b rs w) = OPEN
                  \<longleftrightarrow> streak b rs = failureThreshold (options b)" by simp
  from fo show "state (run_calls b rs w) = CLOSED
                  \<longleftrightarrow> streak b rs < failureThreshold (options b)" by simp
next
  assume "state b = OPEN \<and> nextAttempt b = Some t \<and> clock w < t"
  then have "state b = OPEN" and "nextAttempt b = Some t" and "clock w < t"
    by simp_all
  then show "CircuitBreaker_execute b fn w = (Inl (openError b), b, w)"
    by (rule open_step)
next
  assume "(state b = OPEN \<and> nextAttempt b = Some t \<and> t \<le> clock w) \<or> state b = HALF_OPEN"
  with inv show "case CircuitBreaker_execute b fn w of (res, b', w') \<Rightarrow>
                 res = fst (fn w) \<and> w' = snd (fn w)
                 \<and> (case fst (fn w) of
                       Inr v \<Rightarrow> state b' = CLOSED \<and> failureCount b' = 0
                     | Inl e \<Rightarrow>
                         if isExpectedError b e then state b' = HALF_OPEN
                         else state b' = OPEN
                            \<and> nextAttempt b' = Some (clock w' + resetTimeout (options b)))"
    by (rule trial_step)
qed

lemma refused_below:
  "\<forall>n<length [refused, refused, refused, refused, refused].
      streak defaultBreaker (take n [refused, refused, refused, refused, refused])
        < failureThreshold (options defaultBreaker)"
  by (simp add: All_less_Suc streak_def breaker_defs)

text \<open>
  The witness is Scenario C: five refused connections open the breaker with the default
  options; a call before the timeout of 30000 ms has elapsed is refused without being
  made; at 30000 ms a successful call closes the breaker and a refused one reopens it.
\<close>

theorem circuit_breaker_behaviour_witness:
  "breaker_inv defaultBreaker \<and> state defaultBreaker = CLOSED \<and> failureCount defaultBreaker = 0
   \<and> streak defaultBreaker [refused, refused, refused, refused, refused] = 5
   \<and> failureThreshold (options defaultBreaker) = 5
   \<and> state (run_calls defaultBreaker [refused, refused, refused, refused, refused] world0)
       = OPEN
   \<and> state openBreaker = OPEN \<and> nextAttempt openBreaker = Some 30000
   \<and> breaker_inv openBreaker
   \<and> CircuitBreaker_execute openBreaker (failingWith (Error ''connect ECONNREFUSED''))
        (world0\<lparr>clock := 29999\<rparr>)
       = (Inl (Error ''Circuit breaker product-service is OPEN''), openBreaker,
          world0\<lparr>clock := 29999\<rparr>)
   \<and> state (fst (snd (CircuitBreaker_execute openBreaker (returning (Inr ()))
                         (world0\<lparr>clock := 30000\<rparr>)))) = CLOSED
   \<and> state (fst (snd (CircuitBreaker_execute openBreaker
                         (failingWith (Error ''connect ECONNREFUSED''))
                         (world0\<lparr>clock := 30000\<rparr>)))) = OPEN
   \<and> nextAttempt (fst (snd (CircuitBreaker_execute openBreaker
                         (failingWith (Error ''connect ECONNREFUSED''))
                         (world0\<lparr>clock := 30000\<rparr>)))) = Some 60000"
proof -
  let ?rs = "[refused, refused, refused, refused, refused]"
  have d: "state defaultBreaker = CLOSED \<and> failureCount defaultBreaker = 0
           \<and> failureThreshold (options defaultBreaker) = 5"
    by (simp add: breaker_defs)
  have s: "streak defaultBreaker ?rs = 5"
    by (simp add: streak_def breaker_defs)
  note c1 = circuit_breaker_behaviour [OF defaultBreaker_inv,
      of "returning refused" world0 ?rs 0]
  from c1 d refused_below s have opened: "state (run_calls defaultBreaker ?rs world0) = OPEN"
    by simp
  note o = openBreaker_fields
  note c2 = circuit_breaker_behaviour [OF openBreaker_inv,
      of "failingWith (Error ''connect ECONNREFUSED'')" "world0\<lparr>clock := 29999\<rparr>"
         "[]::(JsError + unit) list" 30000]
  from c2 o have fast: "CircuitBreaker_execute openBreaker (failingWith (Error ''connect ECONNREFUSED''))
        (world0\<lparr>clock := 29999\<rparr>)
       = (Inl (Error ''Circuit breaker product-service is OPEN''), openBreaker,
          world0\<lparr>clock := 29999\<rparr>)"
    by (simp add: openError_def world0_def)
  note c3 = circuit_breaker_behaviour [OF openBreaker_inv,
      of "returning (Inr ())" "world0\<lparr>clock := 30000\<rparr>" "[]::(JsError + unit) list" 30000]
  from c3 o have ok: "state (fst (snd (CircuitBreaker_execute openBreaker (returning (Inr ()))
                         (world0\<lparr>clock := 30000\<rparr>)))) = CLOSED"
    by (simp add: world0_def returning_def split: prod.splits)
  have again: "state (fst (snd (CircuitBreaker_execute openBreaker
                         (failingWith (Error ''connect ECONNREFUSED''))
                         (world0\<lparr>clock := 30000\<rparr>)))) = OPEN
   \<and> nextAttempt (fst (snd (CircuitBreaker_execute openBreaker
                         (failingWith (Error ''connect ECONNREFUSED''))
                         (world0\<lparr>clock := 30000\<rparr>)))) = Some 60000"
    by (simp add: breaker_defs)
  from defaultBreaker_inv d s opened o openBreaker_inv fast ok again show ?thesis by blast
qed

end
